theory Spec2Isabelle
  imports Main
begin

section \<open>Observable effects\<close>

text \<open>
  The launcher library talks to the operating system: it reads environment variables,
  asks the file system whether a file is there, reads the registry, creates pipes and
  processes and sends signals. Every such call is recorded as an \<open>event\<close>; a
  modelled function returns its C++ result together with the list of events it caused,
  in program order. Diagnostic output on \<open>std::cout\<close> and \<open>std::cerr\<close> is
  not recorded.
\<close>

datatype event =
    GetEnv string
  | FsExists string
  | AccessX string
  | GetFileAttributes string
  | RegOpenKey
  | RegQueryValue
  | RegCloseKey
  | Pipe
  | Fork
  | Dup2 int int
  | Close int
  | Execv string "string list"
  | Kill int int
  | WaitPid int
  | CreateNamedPipe
  | CreatePipe
  | SetHandleInformation
  | CreateProcess string string
  | CloseHandle
  | ConnectNamedPipe
  | EnterStop
  | EnterTerminate

text \<open>
  The one exception the code can meet: \<open>std::filesystem::exists(path)\<close> throws
  \<open>std::filesystem::filesystem_error\<close> when the status of the path cannot be
  read for a reason other than the file being absent (no permission to search a
  directory, a name that is too long). No function of the repository catches it. A
  function that can throw returns \<open>Inl filesystem_error\<close> in place of its result,
  with the events up to the throwing call.
\<close>

datatype error = filesystem_error

abbreviation NUL :: char where
  "NUL \<equiv> CHR 0x00"

abbreviation BACKSLASH :: char where
  "BACKSLASH \<equiv> CHR 0x5C"

text \<open>
  A \<open>std::string\<close> is a list of characters and may hold NUL characters;
  \<open>c_str()\<close> hands it to a C interface, which reads it up to its first NUL. Text
  is modelled by its characters: the UTF-8 bytes of a \<open>std::string\<close> and the
  UTF-16 units of a wide string that spell the same text are the same list.
\<close>

definition c_str :: "string \<Rightarrow> string" where
  "c_str s = takeWhile (\<lambda>c. c \<noteq> NUL) s"

section \<open>The launcher's data\<close>

text \<open>
  The members of \<open>Launcher::Impl\<close> (of \<open>Launcher\<close> itself in the
  platform-independent file). A callback slot is a \<open>std::function\<close>, empty until
  set; the four stream members are pointers, and only whether they are null matters
  here (\<open>True\<close> is a non-null pointer). The macOS implementation adds the child's
  pid and the three pipes (read end first).
\<close>

typedecl string_callback

typedecl exit_callback

record launcher =
  mQemuPath :: string
  mBiosFile :: string
  mArguments :: "string list"
  mOnStdOut :: "string_callback option"
  mOnStdErr :: "string_callback option"
  mOnSerial :: "string_callback option"
  mOnExit :: "exit_callback option"
  mQemuSerial :: bool
  mQemuStdout :: bool
  mQemuStderr :: bool
  mQemuStdin :: bool

record macos_impl = launcher +
  mQemuPid :: int
  mStdInPipe :: "int \<times> int"
  mStdOutPipe :: "int \<times> int"
  mStdErrPipe :: "int \<times> int"

definition Launcher_init :: launcher where
  "Launcher_init =
     \<lparr>mQemuPath = '''', mBiosFile = '''', mArguments = [],
      mOnStdOut = None, mOnStdErr = None, mOnSerial = None, mOnExit = None,
      mQemuSerial = False, mQemuStdout = False, mQemuStderr = False, mQemuStdin = False\<rparr>"

definition macos_Impl_init :: macos_impl where
  "macos_Impl_init =
     \<lparr>mQemuPath = '''', mBiosFile = '''', mArguments = [],
      mOnStdOut = None, mOnStdErr = None, mOnSerial = None, mOnExit = None,
      mQemuSerial = False, mQemuStdout = False, mQemuStderr = False, mQemuStdin = False,
      mQemuPid = - 1, mStdInPipe = (- 1, - 1), mStdOutPipe = (- 1, - 1),
      mStdErrPipe = (- 1, - 1)\<rparr>"

section \<open>The resolver on POSIX-like platforms\<close>

text \<open>
  What the Linux and macOS resolvers can observe of the machine: \<open>std::getenv\<close>
  (\<open>None\<close> is the null pointer), \<open>std::filesystem::exists\<close>, which answers
  or throws, and \<open>access(path, X_OK) == 0\<close>. The machine does not change while the
  resolver runs.
\<close>

record posix_os =
  getenv :: "string \<Rightarrow> string option"
  fs_exists :: "string \<Rightarrow> error + bool"
  access_X_OK :: "string \<Rightarrow> bool"

text \<open>
  \<open>std::string::find(c, pos)\<close>: the first index at or after \<open>pos\<close> that holds
  \<open>c\<close>, \<open>None\<close> for \<open>npos\<close>. \<open>substr\<close> is
  \<open>std::string::substr(pos, n)\<close> and \<open>substr_from\<close> is \<open>substr(pos)\<close>;
  both are called with \<open>pos \<le> size\<close> only (see \<open>str_find_bounds\<close>), where
  they do not throw.
\<close>

definition str_find :: "string \<Rightarrow> char \<Rightarrow> nat \<Rightarrow> nat option" where
  "str_find s c pos =
     (if c \<in> set (drop pos s)
      then Some (pos + length (takeWhile (\<lambda>x. x \<noteq> c) (drop pos s)))
      else None)"

definition substr :: "string \<Rightarrow> nat \<Rightarrow> nat \<Rightarrow> string" where
  "substr s pos n = take n (drop pos s)"

definition substr_from :: "string \<Rightarrow> nat \<Rightarrow> string" where
  "substr_from s pos = drop pos s"

subsection \<open>Linux\<close>

definition linux_getExePathIfExists ::
  "posix_os \<Rightarrow> string \<Rightarrow> string \<Rightarrow> (error + string) \<times> event list" where
  "linux_getExePathIfExists os directory system =
     (let exePath = directory @ ''/'' @ system @ ''.exe'' in
      case fs_exists os exePath of
        Inl e \<Rightarrow> (Inl e, [FsExists exePath])
      | Inr found \<Rightarrow>
          if found then (Inr exePath, [FsExists exePath])
          else (Inr '''', [FsExists exePath]))"

definition linux_findQemuExecutableEnv :: "posix_os \<Rightarrow> string \<Rightarrow> (error + string) \<times> event list" where
  "linux_findQemuExecutableEnv os system =
     (case getenv os ''QEMU_ROOT'' of
        None \<Rightarrow> (Inr '''', [GetEnv ''QEMU_ROOT''])
      | Some qemu_root \<Rightarrow>
          (let (r, t) = linux_getExePathIfExists os qemu_root system
           in (r, GetEnv ''QEMU_ROOT'' # t)))"

text \<open>
  The \<open>while (end != npos)\<close> loop of \<open>findQemuExecutablePath\<close>, with its two
  loop variables \<open>start\<close> and \<open>end\<close>, and the probe of the last directory after
  it. The Linux and the macOS file hold the same loop; they differ in the
  \<open>getExePathIfExists\<close> it calls, here \<open>probe\<close>. A probe that throws ends
  the loop.
\<close>

function findQemuExecutablePath_loop ::
  "(string \<Rightarrow> string \<Rightarrow> (error + string) \<times> event list) \<Rightarrow> string \<Rightarrow> string \<Rightarrow> nat
     \<Rightarrow> nat option \<Rightarrow> (error + string) \<times> event list" where
  "findQemuExecutablePath_loop probe pathStr system start end =
     (case end of
        None \<Rightarrow> probe (substr_from pathStr start) system
      | Some e \<Rightarrow>
          (let (r, t) = probe (substr pathStr start (e - start)) system in
           case r of
             Inl err \<Rightarrow> (Inl err, t)
           | Inr exePath \<Rightarrow>
               if exePath \<noteq> [] then (Inr exePath, t)
               else (let (r', t') = findQemuExecutablePath_loop probe pathStr system (e + 1)
                                      (str_find pathStr CHR '':'' (e + 1))
                     in (r', t @ t'))))"
  by pat_completeness auto

lemma takeWhile_stops:
  "c \<in> set r \<Longrightarrow>
     length (takeWhile (\<lambda>x. x \<noteq> c) r) < length r \<and>
     r ! length (takeWhile (\<lambda>x. x \<noteq> c) r) = c"
  by (induction r) auto

lemma str_find_bounds:
  "str_find s c pos = Some e \<Longrightarrow> pos \<le> e \<and> e < length s \<and> s ! e = c"
proof -
  assume a: "str_find s c pos = Some e"
  let ?r = "drop pos s"
  let ?k = "length (takeWhile (\<lambda>x. x \<noteq> c) ?r)"
  from a have mem: "c \<in> set ?r" and e: "e = pos + ?k"
    by (auto simp: str_find_def split: if_splits)
  from takeWhile_stops [OF mem] have k: "?k < length ?r" and "?r ! ?k = c"
    by simp_all
  with e show ?thesis by auto
qed

lemma str_find_decreases:
  "str_find s c (Suc e) = Some e' \<Longrightarrow> length s - e' < length s - e"
proof -
  assume "str_find s c (Suc e) = Some e'"
  from str_find_bounds [OF this] have "e < e'" and "e' < length s"
    by simp_all
  then show ?thesis by arith
qed

termination findQemuExecutablePath_loop
  apply (relation "measure (\<lambda>(probe, pathStr, system, start, end).
          case end of None \<Rightarrow> 0 | Some e \<Rightarrow> Suc (length pathStr - e))")
   apply simp
  apply (auto split: option.splits dest: str_find_decreases)
  done

definition linux_findQemuExecutablePath :: "posix_os \<Rightarrow> string \<Rightarrow> (error + string) \<times> event list" where
  "linux_findQemuExecutablePath os system =
     (case getenv os ''PATH'' of
        None \<Rightarrow> (Inr '''', [GetEnv ''PATH''])
      | Some pathStr \<Rightarrow>
          (let (r, t) = findQemuExecutablePath_loop (linux_getExePathIfExists os) pathStr system
                          0 (str_find pathStr CHR '':'' 0)
           in (r, GetEnv ''PATH'' # t)))"

definition linux_findQemuExecutable :: "posix_os \<Rightarrow> string \<Rightarrow> (error + string) \<times> event list" where
  "linux_findQemuExecutable os system =
     (let (r1, t1) = linux_findQemuExecutableEnv os system in
      case r1 of
        Inl err \<Rightarrow> (Inl err, t1)
      | Inr qemu_env \<Rightarrow>
          if qemu_env \<noteq> [] then (Inr qemu_env, t1)
          else
            (let (r2, t2) = linux_findQemuExecutablePath os system in
             case r2 of
               Inl err \<Rightarrow> (Inl err, t1 @ t2)
             | Inr path_path \<Rightarrow>
                 if path_path \<noteq> [] then (Inr path_path, t1 @ t2)
                 else (Inr '''', t1 @ t2)))"

subsection \<open>macOS\<close>

definition isFileExists :: "posix_os \<Rightarrow> string \<Rightarrow> (error + bool) \<times> event list" where
  "isFileExists os path =
     (case fs_exists os path of
        Inl e \<Rightarrow> (Inl e, [FsExists path])
      | Inr found \<Rightarrow>
          if found then (Inr (access_X_OK os (c_str path)), [FsExists path, AccessX (c_str path)])
          else (Inr False, [FsExists path]))"

definition macos_getExePathIfExists ::
  "posix_os \<Rightarrow> string \<Rightarrow> string \<Rightarrow> (error + string) \<times> event list" where
  "macos_getExePathIfExists os directory system =
     (let exePath = directory @ ''/'' @ system;
          (r, t) = isFileExists os exePath
      in case r of
           Inl e \<Rightarrow> (Inl e, t)
         | Inr found \<Rightarrow> if found then (Inr exePath, t) else (Inr '''', t))"

definition macos_findQemuExecutableEnv :: "posix_os \<Rightarrow> string \<Rightarrow> (error + string) \<times> event list" where
  "macos_findQemuExecutableEnv os system =
     (case getenv os ''QEMU_ROOT'' of
        None \<Rightarrow> (Inr '''', [GetEnv ''QEMU_ROOT''])
      | Some qemu_root \<Rightarrow>
          (let (r, t) = macos_getExePathIfExists os qemu_root system
           in (r, GetEnv ''QEMU_ROOT'' # t)))"

definition macos_findQemuExecutablePath :: "posix_os \<Rightarrow> string \<Rightarrow> (error + string) \<times> event list" where
  "macos_findQemuExecutablePath os system =
     (case getenv os ''PATH'' of
        None \<Rightarrow> (Inr '''', [GetEnv ''PATH''])
      | Some pathStr \<Rightarrow>
          (let (r, t) = findQemuExecutablePath_loop (macos_getExePathIfExists os) pathStr system
                          0 (str_find pathStr CHR '':'' 0)
           in (r, GetEnv ''PATH'' # t)))"

definition commonPaths :: "string list" where
  "commonPaths =
     [''/usr/local/bin'',
      ''/opt/homebrew/bin'',
      ''/usr/local/Cellar/qemu'',
      ''/opt/homebrew/Cellar/qemu'',
      ''/Applications/QEMU.app/Contents/MacOS'',
      ''/usr/bin'',
      ''/opt/qemu/bin'']"

text \<open>
  The loop of \<open>findQemuExecutableCommon\<close>: probe the directories of a list in
  order, return the first result that is not empty, and the empty string when the list
  is used up; a probe that throws ends the loop.
\<close>

fun probe_in_order ::
  "(string \<Rightarrow> (error + string) \<times> event list) \<Rightarrow> string list \<Rightarrow> (error + string) \<times> event list" where
  "probe_in_order probe [] = (Inr '''', [])"
| "probe_in_order probe (path # paths) =
     (let (r, t) = probe path in
      case r of
        Inl err \<Rightarrow> (Inl err, t)
      | Inr exePath \<Rightarrow>
          if exePath \<noteq> [] then (Inr exePath, t)
          else (let (r', t') = probe_in_order probe paths in (r', t @ t')))"

definition macos_findQemuExecutableCommon :: "posix_os \<Rightarrow> string \<Rightarrow> (error + string) \<times> event list" where
  "macos_findQemuExecutableCommon os system =
     probe_in_order (\<lambda>path. macos_getExePathIfExists os path system) commonPaths"

text \<open>
  \<open>Launcher::Impl::findQemuExecutable\<close> (macOS): the result is the \<open>bool\<close> it
  returns, or the exception, and the \<open>Impl\<close> with \<open>mQemuPath\<close> assigned.
\<close>

definition macos_Impl_findQemuExecutable ::
  "posix_os \<Rightarrow> string \<Rightarrow> macos_impl \<Rightarrow> (error + bool) \<times> macos_impl \<times> event list" where
  "macos_Impl_findQemuExecutable os system impl =
     (let impl0 = impl\<lparr>mQemuPath := ''''\<rparr> in
      if system = [] then (Inr False, impl0, [])
      else
        (let (r1, t1) = macos_findQemuExecutableEnv os system in
         case r1 of
           Inl err \<Rightarrow> (Inl err, impl0, t1)
         | Inr envPath \<Rightarrow>
             if envPath \<noteq> [] then (Inr True, impl0\<lparr>mQemuPath := envPath\<rparr>, t1)
             else
               (let (r2, t2) = macos_findQemuExecutablePath os system in
                case r2 of
                  Inl err \<Rightarrow> (Inl err, impl0, t1 @ t2)
                | Inr pathExe \<Rightarrow>
                    if pathExe \<noteq> [] then (Inr True, impl0\<lparr>mQemuPath := pathExe\<rparr>, t1 @ t2)
                    else
                      (let (r3, t3) = macos_findQemuExecutableCommon os system in
                       case r3 of
                         Inl err \<Rightarrow> (Inl err, impl0, t1 @ t2 @ t3)
                       | Inr commonPath \<Rightarrow>
                           if commonPath \<noteq> []
                           then (Inr True, impl0\<lparr>mQemuPath := commonPath\<rparr>, t1 @ t2 @ t3)
                           else (Inr False, impl0, t1 @ t2 @ t3)))))"

text \<open>
  The constructors: \<open>Launcher::Launcher(system)\<close> on macOS, and in the
  platform-independent file, which calls the free function \<open>findQemuExecutable\<close>
  (on Linux the one above). A constructor that throws constructs no object.
\<close>

definition macos_Launcher :: "posix_os \<Rightarrow> string \<Rightarrow> (error + macos_impl) \<times> event list" where
  "macos_Launcher os system =
     (let (r, impl, t) = macos_Impl_findQemuExecutable os system macos_Impl_init in
      case r of
        Inl err \<Rightarrow> (Inl err, t)
      | Inr found \<Rightarrow> (Inr impl, t))"

definition linux_Launcher :: "posix_os \<Rightarrow> string \<Rightarrow> (error + launcher) \<times> event list" where
  "linux_Launcher os system =
     (let (r, t) = linux_findQemuExecutable os system in
      case r of
        Inl err \<Rightarrow> (Inl err, t)
      | Inr path \<Rightarrow> (Inr (Launcher_init\<lparr>mQemuPath := path\<rparr>), t))"

section \<open>The resolver on Windows\<close>

text \<open>
  What the Windows resolver can observe of the machine: the process environment, whether
  \<open>GetFileAttributesW\<close> finds a file, the \<open>LongPathsEnabled\<close> policy, and the
  registry key \<open>SOFTWARE/QEMU\<close> of the local machine with its value
  \<open>Install_Dir\<close>. A \<open>std::unique_ptr<wchar_t[]>\<close> result is an
  \<open>option\<close>, \<open>None\<close> for \<open>nullptr\<close>, and holds the wide string without its
  terminator.
\<close>

record win_os =
  environment :: "string \<Rightarrow> string option"
  file_attributes :: "string \<Rightarrow> bool"
  LongPathsEnabled :: bool
  reg_key_QEMU :: bool
  reg_Install_Dir :: "string option"

text \<open>
  \<open>stdStringToWindows\<close> converts \<open>str.c_str()\<close> with length -1, that is the
  text up to the first NUL. \<open>windowsToStdString\<close> asks for the converted size with
  length -1, which counts the terminator, makes a \<open>std::string\<close> of that size and
  converts into it: the result is the text followed by one NUL character. (A conversion
  that fails is not modelled: with these arguments Win32 replaces what it cannot
  convert.)
\<close>

definition stdStringToWindows :: "string \<Rightarrow> string" where
  "stdStringToWindows str = c_str str"

definition windowsToStdString :: "string \<Rightarrow> string" where
  "windowsToStdString wstr = c_str wstr @ [NUL]"

definition MAX_PATH :: nat where
  "MAX_PATH = 260"

definition maxPathLength :: "win_os \<Rightarrow> nat" where
  "maxPathLength os = (if LongPathsEnabled os then 32767 else MAX_PATH)"

text \<open>
  \<open>GetEnvironmentVariableW(name, buffer, nSize)\<close> as Win32 documents it, for a
  zero-filled buffer of \<open>nSize\<close> wide characters: the value it returns and the
  buffer afterwards. A variable that is not set gives 0; a buffer that is too small
  (the first call passes none) gives the size needed, terminator included; otherwise the
  value is stored with its terminator and its length returned.
\<close>

definition GetEnvironmentVariableW :: "win_os \<Rightarrow> string \<Rightarrow> nat \<Rightarrow> nat \<times> string" where
  "GetEnvironmentVariableW os name nSize =
     (case environment os name of
        None \<Rightarrow> (0, replicate nSize NUL)
      | Some v \<Rightarrow>
          if length v < nSize then (length v, v @ replicate (nSize - length v) NUL)
          else (length v + 1, replicate nSize NUL))"

text \<open>The NUL-terminated wide string that starts at index \<open>p\<close> of a buffer.\<close>

definition c_string :: "string \<Rightarrow> nat \<Rightarrow> string" where
  "c_string buffer p = takeWhile (\<lambda>c. c \<noteq> NUL) (drop p buffer)"

definition win_isFileExists :: "win_os \<Rightarrow> string \<Rightarrow> bool \<times> event list" where
  "win_isFileExists os path = (file_attributes os path, [GetFileAttributes path])"

text \<open>
  \<open>getExePathIfExists\<close> formats the directory, a backslash, the system id and
  \<open>.exe\<close> into a buffer of \<open>maxPathLength()\<close> wide characters with
  \<open>count = max_path\<close>: at most that many characters are stored.
\<close>

definition win_getExePathIfExists :: "win_os \<Rightarrow> string \<Rightarrow> string \<Rightarrow> string option \<times> event list" where
  "win_getExePathIfExists os directory system =
     (let max_path = maxPathLength os;
          system_w = stdStringToWindows system;
          path = take max_path (directory @ [BACKSLASH] @ system_w @ ''.exe'');
          (found, t) = win_isFileExists os path
      in if found then (Some path, t) else (None, t))"

definition win_findQemuExecutableEnv :: "win_os \<Rightarrow> string \<Rightarrow> string option \<times> event list" where
  "win_findQemuExecutableEnv os system =
     (let buf_size = fst (GetEnvironmentVariableW os ''QEMU_ROOT'' 0) in
      if buf_size = 0 then (None, [GetEnv ''QEMU_ROOT''])
      else
        (let (written, qemu_root_path) = GetEnvironmentVariableW os ''QEMU_ROOT'' buf_size in
         if 0 < written \<and> written < buf_size then
           (let (path, t) = win_getExePathIfExists os (c_string qemu_root_path 0) system
            in (path, [GetEnv ''QEMU_ROOT'', GetEnv ''QEMU_ROOT''] @ t))
         else (None, [GetEnv ''QEMU_ROOT'', GetEnv ''QEMU_ROOT''])))"

text \<open>
  The \<open>for (size_t i = 0; i < size; i++)\<close> loop of \<open>findQemuExecutablePath\<close>
  over the buffer \<open>path_env\<close> (\<open>buf_size\<close> is the code's \<open>size\<close>): at a
  \<open>;\<close> or a NUL the character is overwritten with NUL, the string that starts at
  \<open>current_path\<close> is probed, and \<open>current_path\<close> moves behind the separator.
\<close>

function win_findQemuExecutablePath_loop ::
  "win_os \<Rightarrow> string \<Rightarrow> nat \<Rightarrow> string \<Rightarrow> nat \<Rightarrow> nat \<Rightarrow> string option \<times> event list" where
  "win_findQemuExecutablePath_loop os system buf_size path_env current_path i =
     (if i < buf_size then
        (if path_env ! i = CHR '';'' \<or> path_env ! i = NUL then
           (let path_env' = path_env[i := NUL];
                (path, t) = win_getExePathIfExists os (c_string path_env' current_path) system
            in case path of
                 Some p \<Rightarrow> (Some p, t)
               | None \<Rightarrow>
                   (let (r, t') = win_findQemuExecutablePath_loop os system buf_size path_env'
                                    (i + 1) (i + 1)
                    in (r, t @ t')))
         else win_findQemuExecutablePath_loop os system buf_size path_env current_path (i + 1))
      else (None, []))"
  by pat_completeness auto

termination win_findQemuExecutablePath_loop
  by (relation "measure (\<lambda>(os, system, buf_size, path_env, current_path, i). buf_size - i)") auto

definition win_findQemuExecutablePath :: "win_os \<Rightarrow> string \<Rightarrow> string option \<times> event list" where
  "win_findQemuExecutablePath os system =
     (let buf_size = fst (GetEnvironmentVariableW os ''PATH'' 0) in
      if buf_size = 0 then (None, [GetEnv ''PATH''])
      else
        (let (written, path_env) = GetEnvironmentVariableW os ''PATH'' buf_size in
         if 0 < written \<and> written < buf_size then
           (let (r, t) = win_findQemuExecutablePath_loop os system buf_size path_env 0 0
            in (r, [GetEnv ''PATH'', GetEnv ''PATH''] @ t))
         else (None, [GetEnv ''PATH'', GetEnv ''PATH''])))"

text \<open>
  \<open>findQemuExecutableRegistry\<close>: \<open>RegQueryValueExW\<close> gets a buffer of
  \<open>maxPathLength()\<close> wide characters and fails when the value with its terminator
  does not fit.
\<close>

definition win_findQemuExecutableRegistry :: "win_os \<Rightarrow> string \<Rightarrow> string option \<times> event list" where
  "win_findQemuExecutableRegistry os system =
     (if \<not> reg_key_QEMU os then (None, [RegOpenKey])
      else
        (case reg_Install_Dir os of
           None \<Rightarrow> (None, [RegOpenKey, RegQueryValue, RegCloseKey])
         | Some qemu_root_path \<Rightarrow>
             if length qemu_root_path < maxPathLength os then
               (let (path, t) = win_getExePathIfExists os (c_string qemu_root_path 0) system
                in (path, [RegOpenKey, RegQueryValue, RegCloseKey] @ t))
             else (None, [RegOpenKey, RegQueryValue, RegCloseKey])))"

text \<open>The free function \<open>findQemuExecutable\<close> of the first Windows file.\<close>

definition win_findQemuExecutable :: "win_os \<Rightarrow> string \<Rightarrow> string \<times> event list" where
  "win_findQemuExecutable os system =
     (let (qemu_env, t1) = win_findQemuExecutableEnv os system in
      case qemu_env of
        Some p \<Rightarrow> (windowsToStdString p, t1)
      | None \<Rightarrow>
          (let (path_path, t2) = win_findQemuExecutablePath os system in
           case path_path of
             Some p \<Rightarrow> (windowsToStdString p, t1 @ t2)
           | None \<Rightarrow>
               (let (registry_path, t3) = win_findQemuExecutableRegistry os system in
                case registry_path of
                  Some p \<Rightarrow> (windowsToStdString p, t1 @ t2 @ t3)
                | None \<Rightarrow> ('''', t1 @ t2 @ t3))))"

text \<open>\<open>Launcher::Impl::findQemuExecutable\<close> of the second Windows file.\<close>

definition win_Impl_findQemuExecutable ::
  "win_os \<Rightarrow> string \<Rightarrow> launcher \<Rightarrow> bool \<times> launcher \<times> event list" where
  "win_Impl_findQemuExecutable os system impl =
     (let impl0 = impl\<lparr>mQemuPath := ''''\<rparr> in
      if system = [] then (False, impl0, [])
      else
        (let (env, t1) = win_findQemuExecutableEnv os system in
         case env of
           Some p \<Rightarrow> (True, impl0\<lparr>mQemuPath := windowsToStdString p\<rparr>, t1)
         | None \<Rightarrow>
             (let (path, t2) = win_findQemuExecutablePath os system in
              case path of
                Some p \<Rightarrow> (True, impl0\<lparr>mQemuPath := windowsToStdString p\<rparr>, t1 @ t2)
              | None \<Rightarrow>
                  (let (reg, t3) = win_findQemuExecutableRegistry os system in
                   case reg of
                     Some p \<Rightarrow>
                       (True, impl0\<lparr>mQemuPath := windowsToStdString p\<rparr>, t1 @ t2 @ t3)
                   | None \<Rightarrow> (False, impl0, t1 @ t2 @ t3)))))"

definition win_Launcher :: "win_os \<Rightarrow> string \<Rightarrow> launcher \<times> event list" where
  "win_Launcher os system = snd (win_Impl_findQemuExecutable os system Launcher_init)"

section \<open>The launcher\<close>

subsection \<open>Configuration and accessors\<close>

text \<open>
  The setters and accessors have the same bodies in the three \<open>Launcher\<close>
  classes (through \<open>pImpl\<close> on macOS and Windows), so they are defined once, for
  every extension of the record.
\<close>

definition setQemuPath :: "string \<Rightarrow> 'a launcher_scheme \<Rightarrow> 'a launcher_scheme" where
  "setQemuPath path l = l\<lparr>mQemuPath := path\<rparr>"

definition setBios :: "string \<Rightarrow> 'a launcher_scheme \<Rightarrow> 'a launcher_scheme" where
  "setBios bios_file l = l\<lparr>mBiosFile := bios_file\<rparr>"

definition addArgument :: "string \<Rightarrow> 'a launcher_scheme \<Rightarrow> 'a launcher_scheme" where
  "addArgument arg l = l\<lparr>mArguments := mArguments l @ [arg]\<rparr>"

definition onStdOut :: "string_callback \<Rightarrow> 'a launcher_scheme \<Rightarrow> 'a launcher_scheme" where
  "onStdOut callback l = l\<lparr>mOnStdOut := Some callback\<rparr>"

definition onStdErr :: "string_callback \<Rightarrow> 'a launcher_scheme \<Rightarrow> 'a launcher_scheme" where
  "onStdErr callback l = l\<lparr>mOnStdErr := Some callback\<rparr>"

definition onSerial :: "string_callback \<Rightarrow> 'a launcher_scheme \<Rightarrow> 'a launcher_scheme" where
  "onSerial callback l = l\<lparr>mOnSerial := Some callback\<rparr>"

definition onExit :: "exit_callback \<Rightarrow> 'a launcher_scheme \<Rightarrow> 'a launcher_scheme" where
  "onExit callback l = l\<lparr>mOnExit := Some callback\<rparr>"

definition qemuPath :: "'a launcher_scheme \<Rightarrow> string" where
  "qemuPath l = mQemuPath l"

definition bios :: "'a launcher_scheme \<Rightarrow> string" where
  "bios l = mBiosFile l"

definition arguments :: "'a launcher_scheme \<Rightarrow> string list" where
  "arguments l = mArguments l"

text \<open>A sequence of \<open>addArgument\<close> calls, first argument first.\<close>

definition addArguments :: "string list \<Rightarrow> 'a launcher_scheme \<Rightarrow> 'a launcher_scheme" where
  "addArguments args l = foldl (\<lambda>l arg. addArgument arg l) l args"

subsection \<open>Starting and stopping: the platform-independent file\<close>

text \<open>
  A call returns a \<open>bool\<close>, or throws (the platform-independent \<open>start()\<close>
  calls \<open>std::filesystem::exists\<close>), or, in the forked child on macOS, does not
  return: \<open>execv\<close> replaces the process or \<open>_exit(1)\<close> ends it. A call's
  result is the outcome, the object afterwards and the events.
\<close>

datatype outcome = Returned bool | NoReturn | Throws error

definition Launcher_start ::
  "(string \<Rightarrow> error + bool) \<Rightarrow> launcher \<Rightarrow> outcome \<times> launcher \<times> event list" where
  "Launcher_start filesystem_exists l =
     (if mQemuPath l = [] then (Returned False, l, [])
      else
        (case filesystem_exists (mQemuPath l) of
           Inl e \<Rightarrow> (Throws e, l, [FsExists (mQemuPath l)])
         | Inr path_found \<Rightarrow>
             if \<not> path_found then (Returned False, l, [FsExists (mQemuPath l)])
             else if mBiosFile l = [] then (Returned False, l, [FsExists (mQemuPath l)])
             else
               (case filesystem_exists (mBiosFile l) of
                  Inl e \<Rightarrow> (Throws e, l, [FsExists (mQemuPath l), FsExists (mBiosFile l)])
                | Inr bios_found \<Rightarrow>
                    if \<not> bios_found then
                      (Returned False, l, [FsExists (mQemuPath l), FsExists (mBiosFile l)])
                    else (Returned True, l, [FsExists (mQemuPath l), FsExists (mBiosFile l)]))))"

definition Launcher_stop :: "launcher \<Rightarrow> bool \<times> launcher \<times> event list" where
  "Launcher_stop l = (True, l, [EnterStop])"

definition Launcher_terminate :: "launcher \<Rightarrow> bool \<times> launcher \<times> event list" where
  "Launcher_terminate l = (True, l, [EnterTerminate])"

definition Launcher_destroy :: "launcher \<Rightarrow> launcher \<times> event list" where
  "Launcher_destroy l = (let (stopped, l1, t) = Launcher_stop l in (l1, t))"

subsection \<open>Starting and stopping: macOS\<close>

text \<open>
  What the system calls of one \<open>start()\<close> answer: each \<open>pipe()\<close> gives its two
  descriptors or fails (\<open>None\<close>), and \<open>fork()\<close> gives -1, 0 in the child, or
  the child's pid.
\<close>

record posix_sys =
  pipe_stdin :: "(int \<times> int) option"
  pipe_stdout :: "(int \<times> int) option"
  pipe_stderr :: "(int \<times> int) option"
  fork_result :: int

definition SIGTERM :: int where
  "SIGTERM = 15"

definition SIGKILL :: int where
  "SIGKILL = 9"

text \<open>
  The argument vector the child builds before \<open>execv\<close> (its terminating null
  pointer is not an argument). Its entries are the \<open>c_str()\<close> pointers of the
  members, so the child reads each up to its first NUL.
\<close>

definition macos_start_args :: "'a launcher_scheme \<Rightarrow> string list" where
  "macos_start_args impl =
     (let args0 = [c_str (mQemuPath impl)];
          args1 = (if mBiosFile impl \<noteq> []
                   then args0 @ [''-bios''] @ [c_str (mBiosFile impl)] else args0)
      in foldl (\<lambda>args arg. args @ [c_str arg]) args1 (mArguments impl))"

definition macos_Impl_start :: "posix_sys \<Rightarrow> macos_impl \<Rightarrow> outcome \<times> macos_impl \<times> event list" where
  "macos_Impl_start sys impl =
     (case pipe_stdin sys of
        None \<Rightarrow> (Returned False, impl, [Pipe])
      | Some p_in \<Rightarrow>
          (let impl1 = impl\<lparr>mStdInPipe := p_in\<rparr> in
           case pipe_stdout sys of
             None \<Rightarrow> (Returned False, impl1, [Pipe, Pipe])
           | Some p_out \<Rightarrow>
               (let impl2 = impl1\<lparr>mStdOutPipe := p_out\<rparr> in
                case pipe_stderr sys of
                  None \<Rightarrow> (Returned False, impl2, [Pipe, Pipe, Pipe])
                | Some p_err \<Rightarrow>
                    (let impl3 = impl2\<lparr>mStdErrPipe := p_err, mQemuPid := fork_result sys\<rparr> in
                     if fork_result sys = - 1 then
                       (Returned False, impl3, [Pipe, Pipe, Pipe, Fork])
                     else if fork_result sys = 0 then
                       (NoReturn, impl3,
                        [Pipe, Pipe, Pipe, Fork,
                         Dup2 (fst p_in) 0, Dup2 (snd p_out) 1, Dup2 (snd p_err) 2,
                         Close (snd p_in), Close (fst p_out), Close (fst p_err),
                         Execv (c_str (mQemuPath impl3)) (macos_start_args impl3)])
                     else
                       (Returned True,
                        impl3\<lparr>mQemuStdin := True, mQemuStdout := True, mQemuStderr := True\<rparr>,
                        [Pipe, Pipe, Pipe, Fork,
                         Close (fst p_in), Close (snd p_out), Close (snd p_err)])))))"

definition macos_Launcher_start :: "posix_sys \<Rightarrow> macos_impl \<Rightarrow> outcome \<times> macos_impl \<times> event list" where
  "macos_Launcher_start sys impl =
     (if mQemuPath impl = [] then (Returned False, impl, [])
      else if mBiosFile impl = [] then (Returned False, impl, [])
      else macos_Impl_start sys impl)"

text \<open>The three \<open>if (fd != -1) { close(fd); fd = -1; }\<close> of \<open>stop()\<close> and
  \<open>terminate()\<close>.\<close>

definition close_pipes :: "macos_impl \<Rightarrow> macos_impl \<times> event list" where
  "close_pipes impl =
     (let (impl1, t1) =
            (if snd (mStdInPipe impl) \<noteq> - 1
             then (impl\<lparr>mStdInPipe := (fst (mStdInPipe impl), - 1)\<rparr>, [Close (snd (mStdInPipe impl))])
             else (impl, []));
          (impl2, t2) =
            (if fst (mStdOutPipe impl1) \<noteq> - 1
             then (impl1\<lparr>mStdOutPipe := (- 1, snd (mStdOutPipe impl1))\<rparr>, [Close (fst (mStdOutPipe impl1))])
             else (impl1, []));
          (impl3, t3) =
            (if fst (mStdErrPipe impl2) \<noteq> - 1
             then (impl2\<lparr>mStdErrPipe := (- 1, snd (mStdErrPipe impl2))\<rparr>, [Close (fst (mStdErrPipe impl2))])
             else (impl2, []))
      in (impl3, t1 @ t2 @ t3))"

definition macos_Impl_stop :: "macos_impl \<Rightarrow> bool \<times> macos_impl \<times> event list" where
  "macos_Impl_stop impl =
     (if 0 < mQemuPid impl then
        (let pid = mQemuPid impl;
             (impl1, t) = close_pipes (impl\<lparr>mQemuPid := - 1\<rparr>)
         in (True, impl1, [EnterStop, Kill pid SIGTERM, WaitPid pid] @ t))
      else (False, impl, [EnterStop]))"

definition macos_Impl_terminate :: "macos_impl \<Rightarrow> bool \<times> macos_impl \<times> event list" where
  "macos_Impl_terminate impl =
     (if 0 < mQemuPid impl then
        (let pid = mQemuPid impl;
             (impl1, t) = close_pipes (impl\<lparr>mQemuPid := - 1\<rparr>)
         in (True, impl1, [EnterTerminate, Kill pid SIGKILL, WaitPid pid] @ t))
      else (False, impl, [EnterTerminate]))"

definition macos_Launcher_destroy :: "macos_impl \<Rightarrow> macos_impl \<times> event list" where
  "macos_Launcher_destroy impl =
     (let (stopped, impl1, t1) = macos_Impl_stop impl in
      if \<not> stopped then
        (let (terminated, impl2, t2) = macos_Impl_terminate impl1 in (impl2, t1 @ t2))
      else (impl1, t1))"

subsection \<open>Starting and stopping: Windows\<close>

text \<open>
  What the Win32 calls of one \<open>start()\<close> answer. The results of the three
  \<open>CreatePipe\<close> calls are not looked at by the code. The stream members are set
  as in the \<open>__GNUC__\<close> branch.
\<close>

record win_sys =
  CreateNamedPipeW_ok :: bool
  CreateProcessW_ok :: bool
  ConnectNamedPipe_ok :: bool

definition win_Impl_stop :: "launcher \<Rightarrow> bool \<times> launcher \<times> event list" where
  "win_Impl_stop impl = (True, impl, [EnterStop])"

definition win_Impl_terminate :: "launcher \<Rightarrow> bool \<times> launcher \<times> event list" where
  "win_Impl_terminate impl = (True, impl, [EnterTerminate])"

definition win_commandLine :: "'a launcher_scheme \<Rightarrow> string" where
  "win_commandLine impl =
     foldl (\<lambda>commandLine arg. commandLine @ ('' '' @ arg))
       (mQemuPath impl @ '' -bios '' @ mBiosFile impl) (mArguments impl)"

definition win_Impl_start :: "win_sys \<Rightarrow> launcher \<Rightarrow> outcome \<times> launcher \<times> event list" where
  "win_Impl_start sys impl =
     (if \<not> CreateNamedPipeW_ok sys then (Returned False, impl, [CreateNamedPipe])
      else
        (let setup = [CreateNamedPipe, CreatePipe, CreatePipe, CreatePipe,
                      SetHandleInformation, SetHandleInformation, SetHandleInformation];
             commandLine = win_commandLine impl;
             qemuPathW = stdStringToWindows (mQemuPath impl);
             commandLineW = stdStringToWindows commandLine
         in if \<not> CreateProcessW_ok sys then
              (Returned False, impl, setup @ [CreateProcess qemuPathW commandLineW])
            else
              (let impl1 = impl\<lparr>mQemuStdin := True, mQemuStdout := True, mQemuStderr := True\<rparr>;
                   t = setup @ [CreateProcess qemuPathW commandLineW,
                                CloseHandle, CloseHandle, CloseHandle, ConnectNamedPipe]
               in if \<not> ConnectNamedPipe_ok sys then
                    (let (stopped, impl2, t2) = win_Impl_stop impl1
                     in (Returned False, impl2, t @ t2))
                  else (Returned True, impl1, t))))"

definition win_Launcher_start :: "win_sys \<Rightarrow> launcher \<Rightarrow> outcome \<times> launcher \<times> event list" where
  "win_Launcher_start sys impl =
     (if mQemuPath impl \<noteq> [] then (Returned False, impl, [])
      else if mBiosFile impl \<noteq> [] then (Returned False, impl, [])
      else win_Impl_start sys impl)"

definition win_Launcher_destroy :: "launcher \<Rightarrow> launcher \<times> event list" where
  "win_Launcher_destroy impl =
     (let (stopped, impl1, t1) = win_Impl_stop impl in
      if \<not> stopped then
        (let (terminated, impl2, t2) = win_Impl_terminate impl1 in (impl2, t1 @ t2))
      else (impl1, t1))"


section \<open>The search path as a list of directories\<close>

text \<open>
  The segments of a search-path value: the pieces between separators, from left to
  right, the empty ones included (\<open>/a::/b\<close> has the three segments \<open>/a\<close>, the
  empty string and \<open>/b\<close>; the empty value has one empty segment).
\<close>

fun segments :: "(char \<Rightarrow> bool) \<Rightarrow> string \<Rightarrow> string list" where
  "segments is_sep [] = [[]]"
| "segments is_sep (c # cs) =
     (if is_sep c then [] # segments is_sep cs
      else (case segments is_sep cs of
              [] \<Rightarrow> [[c]]
            | s # ss \<Rightarrow> (c # s) # ss))"

text \<open>
  \<open>probe_in_order\<close> for the Windows probe, whose result is a pointer: the first
  result that is not null.
\<close>

fun win_probe_in_order ::
  "(string \<Rightarrow> string option \<times> event list) \<Rightarrow> string list \<Rightarrow> string option \<times> event list" where
  "win_probe_in_order probe [] = (None, [])"
| "win_probe_in_order probe (d # ds) =
     (let (path, t) = probe d in
      case path of
        Some p \<Rightarrow> (Some p, t)
      | None \<Rightarrow> (let (r, t') = win_probe_in_order probe ds in (r, t @ t')))"

text \<open>
  The search-path strategy as the specification words it, to compare the code with:
  split the value at the separator, skip the empty segments, probe the others from left
  to right, the first match wins.
\<close>

definition spec_search_path ::
  "char \<Rightarrow> (string \<Rightarrow> (error + string) \<times> event list) \<Rightarrow> string
     \<Rightarrow> (error + string) \<times> event list" where
  "spec_search_path sep probe pathStr =
     probe_in_order probe (filter (\<lambda>d. d \<noteq> []) (segments (\<lambda>c. c = sep) pathStr))"

section \<open>Example machines and configurations\<close>

text \<open>Concrete inputs, used to evaluate the definitions above.\<close>

definition example_impl :: macos_impl where
  "example_impl =
     addArgument ''512'' (addArgument ''-m''
       (setBios ''/tmp/bios.bin'' (setQemuPath ''/opt/qemu/bin/qemu-system-arm'' macos_Impl_init)))"


definition example_sys_parent :: posix_sys where
  "example_sys_parent =
     \<lparr>pipe_stdin = Some (3, 4), pipe_stdout = Some (5, 6), pipe_stderr = Some (7, 8),
      fork_result = 4242\<rparr>"

definition example_sys_no_fork :: posix_sys where
  "example_sys_no_fork =
     \<lparr>pipe_stdin = Some (3, 4), pipe_stdout = Some (5, 6), pipe_stderr = Some (7, 8),
      fork_result = - 1\<rparr>"

definition example_win_sys :: win_sys where
  "example_win_sys =
     \<lparr>CreateNamedPipeW_ok = True, CreateProcessW_ok = True, ConnectNamedPipe_ok = True\<rparr>"

definition example_win_sys_no_process :: win_sys where
  "example_win_sys_no_process =
     \<lparr>CreateNamedPipeW_ok = True, CreateProcessW_ok = False, ConnectNamedPipe_ok = False\<rparr>"

text \<open>A Windows configuration whose two files are set, and the same with arguments.\<close>

definition example_win_launcher :: launcher where
  "example_win_launcher =
     setBios ''C:/qemu/bios.bin'' (setQemuPath ''C:/qemu/qemu-system-x86_64.exe'' Launcher_init)"




text \<open>
  A search path with an empty segment, and a file of the wanted name in the root
  directory and in the last directory of the path.
\<close>

definition example_os_empty_segment :: posix_os where
  "example_os_empty_segment =
     \<lparr>getenv = (\<lambda>name. if name = ''PATH'' then Some ''/a::/b'' else None),
      fs_exists = (\<lambda>path. Inr (path = ''/qemu'' \<or> path = ''/b/qemu'')),
      access_X_OK = (\<lambda>path. path = ''/qemu'' \<or> path = ''/b/qemu'')\<rparr>"

definition example_win_os_empty_segment :: win_os where
  "example_win_os_empty_segment =
     \<lparr>environment = (\<lambda>name. if name = ''PATH'' then Some ''C:/a;;C:/b'' else None),
      file_attributes = (\<lambda>path. path = BACKSLASH # ''qemu.exe''),
      LongPathsEnabled = False, reg_key_QEMU = False, reg_Install_Dir = None\<rparr>"

text \<open>
  The machine of the Linux test \<open>FindQemuExecutable_PrioritizesQemuRootOverPath\<close>:
  an executable named as the system under \<open>QEMU_ROOT\<close> and another in the
  directory of \<open>PATH\<close>.
\<close>

definition example_os_two_places :: posix_os where
  "example_os_two_places =
     \<lparr>getenv = (\<lambda>name. if name = ''QEMU_ROOT'' then Some ''/tmp/qemu_test/qemu_root''
                        else if name = ''PATH'' then Some ''/tmp/qemu_test/path_dir'' else None),
      fs_exists = (\<lambda>path. Inr (path = ''/tmp/qemu_test/qemu_root/qemu-system-x86_64''
                     \<or> path = ''/tmp/qemu_test/path_dir/qemu-system-x86_64'')),
      access_X_OK = (\<lambda>path. path = ''/tmp/qemu_test/qemu_root/qemu-system-x86_64''
                     \<or> path = ''/tmp/qemu_test/path_dir/qemu-system-x86_64'')\<rparr>"

text \<open>
  The machine of the Linux test \<open>FindQemuExecutable_FoundInPath\<close>: no
  \<open>QEMU_ROOT\<close>, the executable in the directory of \<open>PATH\<close>.
\<close>

definition example_os_path_only :: posix_os where
  "example_os_path_only =
     \<lparr>getenv = (\<lambda>name. if name = ''PATH'' then Some ''/tmp/qemu_test/bin'' else None),
      fs_exists = (\<lambda>path. Inr (path = ''/tmp/qemu_test/bin/qemu-system-x86_64'')),
      access_X_OK = (\<lambda>path. path = ''/tmp/qemu_test/bin/qemu-system-x86_64'')\<rparr>"

text \<open>A Windows machine where only the registry leads to the executable.\<close>

definition example_win_os_registry :: win_os where
  "example_win_os_registry =
     \<lparr>environment = (\<lambda>name. None),
      file_attributes = (\<lambda>path. path = ''C:/qemu'' @ BACKSLASH # ''qemu-system-arm.exe''),
      LongPathsEnabled = False, reg_key_QEMU = True, reg_Install_Dir = Some ''C:/qemu''\<rparr>"

text \<open>
  The machine of the Linux test \<open>GetExePathIfExists_FileExists\<close>: a file named as
  the system, with no extension, in the probed directory.
\<close>

definition example_os_linux_test :: posix_os where
  "example_os_linux_test =
     \<lparr>getenv = (\<lambda>name. None),
      fs_exists = (\<lambda>path. Inr (path = ''/tmp/qemu_test/qemu-system-x86_64'')),
      access_X_OK = (\<lambda>path. path = ''/tmp/qemu_test/qemu-system-x86_64'')\<rparr>"

text \<open>Files that are there but may not be executed, in the one directory of \<open>PATH\<close>.\<close>

definition example_os_not_executable :: posix_os where
  "example_os_not_executable =
     \<lparr>getenv = (\<lambda>name. if name = ''PATH'' then Some ''/d'' else None),
      fs_exists = (\<lambda>path. Inr (path = ''/d/qemu'' \<or> path = ''/d/qemu.exe'')),
      access_X_OK = (\<lambda>path. False)\<rparr>"

text \<open>A file named \<open>.exe\<close> in the directory \<open>QEMU_ROOT\<close> names.\<close>

definition example_os_dot_exe :: posix_os where
  "example_os_dot_exe =
     \<lparr>getenv = (\<lambda>name. if name = ''QEMU_ROOT'' then Some ''/opt/qemu'' else None),
      fs_exists = (\<lambda>path. Inr (path = ''/opt/qemu/.exe'')),
      access_X_OK = (\<lambda>path. path = ''/opt/qemu/.exe'')\<rparr>"

text \<open>
  A machine on which the directory \<open>QEMU_ROOT\<close> names may not be searched: the
  status of a file in it cannot be read, and \<open>std::filesystem::exists\<close> throws.
\<close>

definition example_os_no_permission :: posix_os where
  "example_os_no_permission =
     \<lparr>getenv = (\<lambda>name. if name = ''QEMU_ROOT'' then Some ''/root/qemu''
                        else if name = ''PATH'' then Some ''/usr/bin'' else None),
      fs_exists = (\<lambda>path. if take 11 path = ''/root/qemu/'' then Inl filesystem_error
                           else Inr (path = ''/usr/bin/qemu'')),
      access_X_OK = (\<lambda>path. path = ''/usr/bin/qemu'')\<rparr>"

section \<open>The search loops, read as lists of directories\<close>

lemma str_find_None: "str_find s c pos = None \<Longrightarrow> \<forall>x\<in>set (drop pos s). x \<noteq> c"
  by (auto simp: str_find_def split: if_splits)

lemma takeWhile_split:
  "c \<in> set r \<Longrightarrow>
     r = takeWhile (\<lambda>x. x \<noteq> c) r @ c # drop (Suc (length (takeWhile (\<lambda>x. x \<noteq> c) r))) r"
  by (induction r) auto

lemma str_find_Some:
  assumes "str_find s c pos = Some e"
  shows "drop pos s = substr s pos (e - pos) @ c # drop (e + 1) s"
    and "\<forall>x\<in>set (substr s pos (e - pos)). x \<noteq> c"
proof -
  let ?r = "drop pos s"
  let ?a = "takeWhile (\<lambda>x. x \<noteq> c) ?r"
  from assms have mem: "c \<in> set ?r" and e: "e = pos + length ?a"
    by (auto simp: str_find_def split: if_splits)
  from e have len: "e - pos = length ?a" by simp
  have a: "substr s pos (e - pos) = ?a"
    unfolding substr_def len by (rule takeWhile_eq_take [symmetric])
  have "?r = ?a @ c # drop (Suc (length ?a)) ?r"
    by (rule takeWhile_split [OF mem])
  moreover have "drop (Suc (length ?a)) ?r = drop (e + 1) s"
    using e by (simp add: add.commute)
  ultimately show "drop pos s = substr s pos (e - pos) @ c # drop (e + 1) s"
    using a by simp
  show "\<forall>x\<in>set (substr s pos (e - pos)). x \<noteq> c"
    unfolding a by (auto dest: set_takeWhileD)
qed

lemma segments_nonempty: "segments P s \<noteq> []"
  by (induction s) (auto split: list.splits)

lemma segments_no_sep: "\<forall>x\<in>set a. \<not> P x \<Longrightarrow> segments P a = [a]"
  by (induction a) auto

lemma segments_first:
  "\<forall>x\<in>set a. \<not> P x \<Longrightarrow> P c \<Longrightarrow> segments P (a @ c # b) = a # segments P b"
  by (induction a) auto

lemma segments_append:
  "P c \<Longrightarrow> segments P (a @ c # b) = segments P a @ segments P b"
proof (induction a)
  case Nil
  then show ?case by simp
next
  case (Cons x a)
  then show ?case
    using segments_nonempty [of P a]
    by (cases "segments P a") auto
qed

text \<open>
  The POSIX loop, started anywhere in the string with \<open>end\<close> as the code computes it,
  probes the segments of the rest of the string in order.
\<close>

lemma findQemuExecutablePath_loop_segments:
  "end = str_find pathStr CHR '':'' start \<Longrightarrow>
   findQemuExecutablePath_loop probe pathStr system start end =
     probe_in_order (\<lambda>d. probe d system) (segments (\<lambda>c. c = CHR '':'') (drop start pathStr))"
proof (induction probe pathStr system start "end" rule: findQemuExecutablePath_loop.induct)
  case (1 probe pathStr system start "end")
  show ?case
  proof (cases "end")
    case None
    with "1.prems" have "\<forall>x\<in>set (drop start pathStr). \<not> x = CHR '':''"
      using str_find_None [of pathStr "CHR '':''" start] by simp
    then have "segments (\<lambda>c. c = CHR '':'') (drop start pathStr) = [drop start pathStr]"
      by (rule segments_no_sep)
    with None show ?thesis
      by (cases "probe (drop start pathStr) system")
         (simp add: substr_from_def split: sum.splits)
  next
    case (Some e)
    with "1.prems" have f: "str_find pathStr CHR '':'' start = Some e" by simp
    let ?d = "substr pathStr start (e - start)"
    from str_find_Some [OF f]
    have split: "drop start pathStr = ?d @ CHR '':'' # drop (e + 1) pathStr"
      and nosep: "\<forall>x\<in>set ?d. \<not> x = CHR '':''"
      by simp_all
    have seg: "segments (\<lambda>c. c = CHR '':'') (drop start pathStr)
                = ?d # segments (\<lambda>c. c = CHR '':'') (drop (e + 1) pathStr)"
      unfolding split by (rule segments_first [OF nosep]) simp
    obtain r t where p: "probe ?d system = (r, t)"
      by (cases "probe ?d system")
    show ?thesis
    proof (cases r)
      case (Inl err)
      with Some p seg show ?thesis by simp
    next
      case (Inr exePath)
      show ?thesis
      proof (cases "exePath = []")
        case True
        have "findQemuExecutablePath_loop probe pathStr system (e + 1)
                (str_find pathStr CHR '':'' (e + 1))
              = probe_in_order (\<lambda>d. probe d system)
                  (segments (\<lambda>c. c = CHR '':'') (drop (e + 1) pathStr))"
          using "1.IH" [OF Some refl p [symmetric] Inr] True by simp
        with Some p Inr True seg show ?thesis by simp
      next
        case False
        with Some p Inr seg show ?thesis by simp
      qed
    qed
  qed
qed

lemma linux_findQemuExecutablePath_segments:
  "linux_findQemuExecutablePath os system =
     (case getenv os ''PATH'' of
        None \<Rightarrow> (Inr '''', [GetEnv ''PATH''])
      | Some pathStr \<Rightarrow>
          (let (r, t) = probe_in_order (\<lambda>d. linux_getExePathIfExists os d system)
                          (segments (\<lambda>c. c = CHR '':'') pathStr)
           in (r, GetEnv ''PATH'' # t)))"
  using findQemuExecutablePath_loop_segments [OF refl, of "linux_getExePathIfExists os" _ system 0]
  by (simp add: linux_findQemuExecutablePath_def split: option.splits)

lemma macos_findQemuExecutablePath_segments:
  "macos_findQemuExecutablePath os system =
     (case getenv os ''PATH'' of
        None \<Rightarrow> (Inr '''', [GetEnv ''PATH''])
      | Some pathStr \<Rightarrow>
          (let (r, t) = probe_in_order (\<lambda>d. macos_getExePathIfExists os d system)
                          (segments (\<lambda>c. c = CHR '':'') pathStr)
           in (r, GetEnv ''PATH'' # t)))"
  using findQemuExecutablePath_loop_segments [OF refl, of "macos_getExePathIfExists os" _ system 0]
  by (simp add: macos_findQemuExecutablePath_def split: option.splits)

text \<open>
  The Windows loop: the buffer holds \<open>w\<close> and its terminator from \<open>current_path\<close>
  on, and the loop has passed \<open>j\<close> characters of \<open>w\<close> without meeting a separator.
\<close>

lemma c_string_prefix:
  "\<forall>x\<in>set a. x \<noteq> NUL \<Longrightarrow> drop cur b = a @ NUL # rest \<Longrightarrow> c_string b cur = a"
  by (simp add: c_string_def takeWhile_tail)

lemma win_findQemuExecutablePath_loop_segments:
  "length b = n \<Longrightarrow> drop cur b = w @ [NUL] \<Longrightarrow> i = cur + j \<Longrightarrow> j \<le> length w \<Longrightarrow>
   \<forall>x\<in>set (take j w). \<not> (x = CHR '';'' \<or> x = NUL) \<Longrightarrow>
   win_findQemuExecutablePath_loop os system n b cur i =
     win_probe_in_order (\<lambda>d. win_getExePathIfExists os d system)
       (segments (\<lambda>c. c = CHR '';'' \<or> c = NUL) w)"
proof (induction os system n b cur i arbitrary: w j rule: win_findQemuExecutablePath_loop.induct)
  case (1 os system n b cur i)
  let ?P = "\<lambda>c. c = CHR '';'' \<or> c = NUL"
  let ?probe = "\<lambda>d. win_getExePathIfExists os d system"
  note b_len = \<open>length b = n\<close> and b_drop = \<open>drop cur b = w @ [NUL]\<close>
    and i_def = \<open>i = cur + j\<close> and j_le = \<open>j \<le> length w\<close>
    and nosep = \<open>\<forall>x\<in>set (take j w). \<not> ?P x\<close>
  have "length (drop cur b) = length w + 1"
    unfolding b_drop by simp
  with b_len have len: "n = cur + length w + 1"
    by simp
  with i_def j_le have i_lt: "i < n"
    by simp
  have "cur + j \<le> length b"
    using len b_len j_le by simp
  then have "drop cur b ! j = b ! (cur + j)"
    by (simp add: nth_drop)
  with b_drop i_def have b_i: "b ! i = (w @ [NUL]) ! j"
    by simp
  show ?case
  proof (cases "j = length w")
    case True
    with nosep have w_clean: "\<forall>x\<in>set w. \<not> ?P x" by simp
    from True b_i have sep: "b ! i = NUL" by simp
    then have upd: "b[i := NUL] = b"
      by (metis list_update_id)
    have cs: "c_string b cur = w"
      using c_string_prefix [of w cur b "[]"] w_clean b_drop by auto
    have seg: "segments ?P w = [w]"
      using w_clean by (rule segments_no_sep)
    from True len i_def have "\<not> i + 1 < n" by simp
    then have rest: "win_findQemuExecutablePath_loop os system n b (i + 1) (i + 1) = (None, [])"
      by simp
    obtain path t where p: "win_getExePathIfExists os w system = (path, t)"
      by (cases "win_getExePathIfExists os w system")
    show ?thesis
      using i_lt sep upd cs seg rest p
      by (subst win_findQemuExecutablePath_loop.simps) (simp split: option.splits)
  next
    case False
    with j_le have j_lt: "j < length w" by simp
    with b_i have b_i': "b ! i = w ! j" by (simp add: nth_append)
    have w_split: "w = take j w @ w ! j # drop (j + 1) w"
      using j_lt by (simp add: id_take_nth_drop)
    show ?thesis
    proof (cases "?P (w ! j)")
      case True
      let ?b' = "b[i := NUL]"
      have "drop cur ?b' = (drop cur b)[j := NUL]"
        using i_def by (simp add: drop_update_swap)
      also have "\<dots> = take j w @ NUL # drop (j + 1) w @ [NUL]"
        unfolding b_drop using j_lt by (simp add: list_update_append upd_conv_take_nth_drop)
      finally have drop': "drop cur ?b' = take j w @ NUL # (drop (j + 1) w @ [NUL])"
        by simp
      have cs: "c_string ?b' cur = take j w"
        using c_string_prefix [OF _ drop'] nosep by auto
      have seg: "segments ?P w = take j w # segments ?P (drop (j + 1) w)"
        using segments_first [of "take j w" ?P "w ! j" "drop (j + 1) w"] nosep True w_split
        by simp
      have "drop (i + 1) ?b' = drop (j + 1) (drop cur ?b')"
        using i_def by (simp add: add.commute)
      also have "\<dots> = drop (j + 1) w @ [NUL]"
        unfolding drop' using j_lt by simp
      finally have drop'': "drop (i + 1) ?b' = drop (j + 1) w @ [NUL]" .
      obtain path t where p: "win_getExePathIfExists os (take j w) system = (path, t)"
        by (cases "win_getExePathIfExists os (take j w) system")
      show ?thesis
      proof (cases path)
        case None
        have "win_findQemuExecutablePath_loop os system n ?b' (i + 1) (i + 1) =
                win_probe_in_order ?probe (segments ?P (drop (j + 1) w))"
        proof (rule "1.IH"(1) [where x = ?b' and xb = path and y = t
                                 and w = "drop (j + 1) w" and j = 0, OF i_lt _ refl refl])
          show "b ! i = CHR '';'' \<or> b ! i = NUL" using True b_i' by simp
          show "(path, t) = win_getExePathIfExists os (c_string ?b' cur) system"
            using cs p by simp
          show "path = None" by (rule None)
          show "length ?b' = n" using b_len by simp
          show "drop (i + 1) ?b' = drop (j + 1) w @ [NUL]" by (rule drop'')
          show "i + 1 = i + 1 + 0" by simp
          show "0 \<le> length (drop (j + 1) w)" by simp
          show "\<forall>x\<in>set (take 0 (drop (j + 1) w)). \<not> ?P x" by simp
        qed
        with None i_lt True b_i' cs seg p show ?thesis
          by (subst win_findQemuExecutablePath_loop.simps) simp
      next
        case (Some q)
        with i_lt True b_i' cs seg p show ?thesis
          by (subst win_findQemuExecutablePath_loop.simps) simp
      qed
    next
      case False
      have "win_findQemuExecutablePath_loop os system n b cur (i + 1) =
              win_probe_in_order ?probe (segments ?P w)"
      proof (rule "1.IH"(2) [where w = w and j = "j + 1", OF i_lt _ b_len b_drop])
        show "\<not> (b ! i = CHR '';'' \<or> b ! i = NUL)" using False b_i' by simp
        show "i + 1 = cur + (j + 1)" using i_def by simp
        show "j + 1 \<le> length w" using j_lt by simp
        show "\<forall>x\<in>set (take (j + 1) w). \<not> ?P x"
          using nosep False j_lt by (simp add: take_Suc_conv_app_nth)
      qed
      with i_lt False b_i' show ?thesis
        by (subst win_findQemuExecutablePath_loop.simps) simp
    qed
  qed
qed

lemma win_findQemuExecutablePath_segments:
  "win_findQemuExecutablePath os system =
     (case environment os ''PATH'' of
        None \<Rightarrow> (None, [GetEnv ''PATH''])
      | Some v \<Rightarrow>
          if v = [] then (None, [GetEnv ''PATH'', GetEnv ''PATH''])
          else
            (let (r, t) = win_probe_in_order (\<lambda>d. win_getExePathIfExists os d system)
                            (segments (\<lambda>c. c = CHR '';'' \<or> c = NUL) v)
             in (r, [GetEnv ''PATH'', GetEnv ''PATH''] @ t)))"
proof (cases "environment os ''PATH''")
  case None
  then show ?thesis
    by (simp add: win_findQemuExecutablePath_def GetEnvironmentVariableW_def)
next
  case (Some v)
  have loop: "win_findQemuExecutablePath_loop os system (length v + 1) (v @ [NUL]) 0 0 =
          win_probe_in_order (\<lambda>d. win_getExePathIfExists os d system)
            (segments (\<lambda>c. c = CHR '';'' \<or> c = NUL) v)"
    by (rule win_findQemuExecutablePath_loop_segments [where j = 0]) simp_all
  from Some loop show ?thesis
    by (simp add: win_findQemuExecutablePath_def GetEnvironmentVariableW_def)
qed


section \<open>The probed path\<close>

lemma linux_probe_path:
  "snd (linux_getExePathIfExists os directory system)
     = [FsExists (directory @ ''/'' @ system @ ''.exe'')]"
  by (simp add: linux_getExePathIfExists_def Let_def split: sum.splits)

lemma macos_probe_path:
  "hd (snd (macos_getExePathIfExists os directory system)) = FsExists (directory @ ''/'' @ system)"
  by (simp add: macos_getExePathIfExists_def isFileExists_def Let_def split: sum.splits)

lemma win_probe_path:
  "snd (win_getExePathIfExists os directory system)
     = [GetFileAttributes (take (maxPathLength os)
          (directory @ [BACKSLASH] @ stdStringToWindows system @ ''.exe''))]"
  by (simp add: win_getExePathIfExists_def win_isFileExists_def Let_def)

text \<open>
  Claim C4 has the probed file name be the system id plus \<open>.exe\<close> on Windows and
  the system id alone elsewhere. The macOS and Windows probes do that
  (\<open>macos_probe_path\<close>, \<open>win_probe_path\<close>); the Linux probe appends \<open>.exe\<close>
  as well (\<open>linux_probe_path\<close>). On the machine of the Linux test
  \<open>GetExePathIfExists_FileExists\<close>, which expects the path of the file without
  extension, the Linux probe looks for \<open>qemu-system-x86_64.exe\<close> and returns the
  empty string; the macOS probe finds the file.
\<close>

theorem linux_probe_appends_exe:
  "linux_getExePathIfExists example_os_linux_test ''/tmp/qemu_test'' ''qemu-system-x86_64''
     = (Inr '''', [FsExists ''/tmp/qemu_test/qemu-system-x86_64.exe'']) \<and>
   macos_getExePathIfExists example_os_linux_test ''/tmp/qemu_test'' ''qemu-system-x86_64''
     = (Inr ''/tmp/qemu_test/qemu-system-x86_64'',
        [FsExists ''/tmp/qemu_test/qemu-system-x86_64'',
         AccessX ''/tmp/qemu_test/qemu-system-x86_64''])"
  by (simp add: linux_getExePathIfExists_def macos_getExePathIfExists_def isFileExists_def
      example_os_linux_test_def c_str_def Let_def)

section \<open>Executability\<close>

lemma macos_probe_found:
  "fst (macos_getExePathIfExists os directory system) = Inr p \<Longrightarrow> p \<noteq> [] \<Longrightarrow>
     p = directory @ ''/'' @ system \<and> fs_exists os p = Inr True \<and> access_X_OK os (c_str p)"
  by (auto simp: macos_getExePathIfExists_def isFileExists_def Let_def
      split: sum.splits if_splits)

lemma macos_probe_requires_execute:
  "\<not> access_X_OK os (c_str (directory @ ''/'' @ system)) \<Longrightarrow>
     fst (macos_getExePathIfExists os directory system) \<in> {Inl filesystem_error, Inr ''''}"
proof (cases "fst (macos_getExePathIfExists os directory system)")
  case (Inl e)
  then show ?thesis by (cases e) simp
next
  case (Inr p)
  assume "\<not> access_X_OK os (c_str (directory @ ''/'' @ system))"
  with macos_probe_found [OF Inr] have "p = []" by auto
  with Inr show ?thesis by simp
qed

lemma probe_in_order_found:
  "fst (probe_in_order probe ds) = Inr p \<Longrightarrow> p \<noteq> [] \<Longrightarrow> \<exists>d\<in>set ds. fst (probe d) = Inr p"
  by (induction ds) (auto simp: Let_def split: prod.splits sum.splits if_splits)

lemma macos_strategies_executable:
  "fst (macos_findQemuExecutableEnv os system) = Inr p \<Longrightarrow> p \<noteq> [] \<Longrightarrow> access_X_OK os (c_str p)"
  "fst (macos_findQemuExecutablePath os system) = Inr p \<Longrightarrow> p \<noteq> [] \<Longrightarrow> access_X_OK os (c_str p)"
  "fst (macos_findQemuExecutableCommon os system) = Inr p \<Longrightarrow> p \<noteq> [] \<Longrightarrow> access_X_OK os (c_str p)"
proof -
  assume a: "fst (macos_findQemuExecutableEnv os system) = Inr p" and ne: "p \<noteq> []"
  then obtain qemu_root where r: "getenv os ''QEMU_ROOT'' = Some qemu_root"
    by (cases "getenv os ''QEMU_ROOT''") (auto simp: macos_findQemuExecutableEnv_def)
  with a have "fst (macos_getExePathIfExists os qemu_root system) = Inr p"
    by (simp add: macos_findQemuExecutableEnv_def split: prod.splits)
  from macos_probe_found [OF this ne] show "access_X_OK os (c_str p)"
    by blast
next
  assume a: "fst (macos_findQemuExecutablePath os system) = Inr p" and ne: "p \<noteq> []"
  then obtain pathStr where ps: "getenv os ''PATH'' = Some pathStr"
    by (cases "getenv os ''PATH''") (auto simp: macos_findQemuExecutablePath_def)
  let ?r = "probe_in_order (\<lambda>d. macos_getExePathIfExists os d system)
              (segments (\<lambda>c. c = CHR '':'') pathStr)"
  from ps a have "fst ?r = Inr p"
    by (simp add: macos_findQemuExecutablePath_segments split: prod.splits)
  from probe_in_order_found [OF this ne] obtain d
    where "fst (macos_getExePathIfExists os d system) = Inr p" by auto
  from macos_probe_found [OF this ne] show "access_X_OK os (c_str p)"
    by blast
next
  assume a: "fst (macos_findQemuExecutableCommon os system) = Inr p" and ne: "p \<noteq> []"
  let ?r = "probe_in_order (\<lambda>path. macos_getExePathIfExists os path system) commonPaths"
  from a have "fst ?r = Inr p"
    by (simp add: macos_findQemuExecutableCommon_def)
  from probe_in_order_found [OF this ne] obtain d
    where "fst (macos_getExePathIfExists os d system) = Inr p" by auto
  from macos_probe_found [OF this ne] show "access_X_OK os (c_str p)"
    by blast
qed

lemma macos_resolved_is_executable:
  "mQemuPath (fst (snd (macos_Impl_findQemuExecutable os system impl))) \<noteq> [] \<Longrightarrow>
     access_X_OK os (c_str (mQemuPath (fst (snd (macos_Impl_findQemuExecutable os system impl)))))"
  using macos_strategies_executable [of os system]
  by (auto simp: macos_Impl_findQemuExecutable_def Let_def
      split: prod.splits sum.splits if_splits)

text \<open>
  Claim C3 has every resolver probe on a POSIX-like platform treat a file without
  execute permission as absent. The macOS resolver does
  (\<open>macos_probe_requires_execute\<close>, \<open>macos_resolved_is_executable\<close>); the Linux
  probe asks \<open>std::filesystem::exists\<close> only. Where the search path names one
  directory and the files in it may not be executed, the Linux resolver returns the
  file it probed, and the macOS resolver returns the empty string.
\<close>

theorem linux_accepts_file_without_execute_permission:
  "linux_findQemuExecutable example_os_not_executable ''qemu''
     = (Inr ''/d/qemu.exe'', [GetEnv ''QEMU_ROOT'', GetEnv ''PATH'', FsExists ''/d/qemu.exe'']) \<and>
   \<not> access_X_OK example_os_not_executable ''/d/qemu.exe'' \<and>
   fst (macos_Launcher example_os_not_executable ''qemu'') = Inr macos_Impl_init \<and>
   mQemuPath macos_Impl_init = ''''"
  by (simp add: linux_findQemuExecutable_def linux_findQemuExecutableEnv_def
      linux_findQemuExecutablePath_segments linux_getExePathIfExists_def
      macos_Launcher_def macos_Impl_findQemuExecutable_def macos_findQemuExecutableEnv_def
      macos_findQemuExecutablePath_segments macos_findQemuExecutableCommon_def commonPaths_def
      macos_getExePathIfExists_def isFileExists_def example_os_not_executable_def
      macos_Impl_init_def c_str_def Let_def)

section \<open>The empty system id\<close>

lemma macos_empty_system:
  "macos_Impl_findQemuExecutable os [] impl = (Inr False, impl\<lparr>mQemuPath := ''''\<rparr>, [])"
  by (simp add: macos_Impl_findQemuExecutable_def)

lemma win_Impl_empty_system:
  "win_Impl_findQemuExecutable os [] impl = (False, impl\<lparr>mQemuPath := ''''\<rparr>, [])"
  by (simp add: win_Impl_findQemuExecutable_def)

lemma linux_findQemuExecutableEnv_trace:
  "\<exists>t. snd (linux_findQemuExecutableEnv os system) = GetEnv ''QEMU_ROOT'' # t"
  by (simp add: linux_findQemuExecutableEnv_def split: option.splits prod.splits)

lemma linux_empty_system_reads_environment:
  "hd (snd (linux_findQemuExecutable os [])) = GetEnv ''QEMU_ROOT''"
proof -
  obtain r t where e: "linux_findQemuExecutableEnv os [] = (r, GetEnv ''QEMU_ROOT'' # t)"
    using linux_findQemuExecutableEnv_trace [of os "[]"]
    by (cases "linux_findQemuExecutableEnv os []") auto
  then show ?thesis
    by (simp add: linux_findQemuExecutable_def Let_def split: prod.splits sum.splits)
qed

text \<open>
  Claim C5 has the resolver answer the empty system id with the empty result on every
  machine, without a look at the environment or the file system. The resolvers inside
  \<open>Launcher::Impl\<close> do (\<open>macos_empty_system\<close>, \<open>win_Impl_empty_system\<close>). The
  Linux \<open>findQemuExecutable\<close> has no such check: it always reads \<open>QEMU_ROOT\<close>
  (\<open>linux_empty_system_reads_environment\<close>), and where that directory holds a file
  named \<open>.exe\<close> it returns that file's path.
\<close>

theorem linux_resolves_empty_system:
  "linux_findQemuExecutable example_os_dot_exe ''''
     = (Inr ''/opt/qemu/.exe'', [GetEnv ''QEMU_ROOT'', FsExists ''/opt/qemu/.exe'']) \<and>
   fst (linux_Launcher example_os_dot_exe '''') = Inr (setQemuPath ''/opt/qemu/.exe'' Launcher_init) \<and>
   macos_Launcher example_os_dot_exe '''' = (Inr macos_Impl_init, [])"
  by (simp add: linux_Launcher_def linux_findQemuExecutable_def linux_findQemuExecutableEnv_def
      linux_getExePathIfExists_def macos_Launcher_def macos_empty_system macos_Impl_init_def
      setQemuPath_def example_os_dot_exe_def Let_def)

section \<open>Empty segments of the search path\<close>

lemma segments_empty_between:
  "P c \<Longrightarrow> P c' \<Longrightarrow> segments P (a @ c # c' # b) = segments P a @ [] # segments P b"
  by (simp add: segments_append)

lemma empty_segment_probe:
  "hd (snd (macos_getExePathIfExists os [] system)) = FsExists (''/'' @ system) \<and>
   snd (linux_getExePathIfExists os [] system) = [FsExists (''/'' @ system @ ''.exe'')] \<and>
   snd (win_getExePathIfExists wos [] system) =
     [GetFileAttributes (take (maxPathLength wos)
        ([BACKSLASH] @ stdStringToWindows system @ ''.exe''))]"
  by (simp add: macos_getExePathIfExists_def isFileExists_def linux_getExePathIfExists_def
      win_getExePathIfExists_def win_isFileExists_def Let_def split: sum.splits)

lemma win_probes_empty_segment:
  "win_findQemuExecutablePath example_win_os_empty_segment ''qemu'' =
     (Some (BACKSLASH # ''qemu.exe''),
      [GetEnv ''PATH'', GetEnv ''PATH'',
       GetFileAttributes (''C:/a'' @ BACKSLASH # ''qemu.exe''),
       GetFileAttributes (BACKSLASH # ''qemu.exe'')])"
  by (simp add: win_findQemuExecutablePath_segments example_win_os_empty_segment_def
      win_getExePathIfExists_def win_isFileExists_def stdStringToWindows_def c_str_def
      maxPathLength_def MAX_PATH_def Let_def)

text \<open>
  Claim C6 has an empty segment of the search path skipped, with no directory probed
  for it, neither the current directory nor any other. No loop of the repository tests
  a segment for emptiness: each joins the segment, the separator and the file name, so
  the empty segment is probed as a file in the root directory
  (\<open>empty_segment_probe\<close>, and \<open>win_probes_empty_segment\<close> for Windows). With
  \<open>PATH=/a::/b\<close>, nothing in \<open>/a\<close> and a file \<open>qemu\<close> in the root directory
  and in \<open>/b\<close>, the macOS strategy probes \<open>/qemu\<close> for the empty segment and
  returns it; skipping the segment, as the specification words the strategy, gives
  \<open>/b/qemu\<close>.
\<close>

theorem macos_probes_empty_segment:
  "macos_findQemuExecutablePath example_os_empty_segment ''qemu'' =
     (Inr ''/qemu'',
      [GetEnv ''PATH'', FsExists ''/a/qemu'', FsExists ''/qemu'', AccessX ''/qemu'']) \<and>
   spec_search_path CHR '':'' (\<lambda>d. macos_getExePathIfExists example_os_empty_segment d ''qemu'')
       ''/a::/b'' =
     (Inr ''/b/qemu'', [FsExists ''/a/qemu'', FsExists ''/b/qemu'', AccessX ''/b/qemu''])"
  by (simp add: macos_findQemuExecutablePath_segments spec_search_path_def
      example_os_empty_segment_def macos_getExePathIfExists_def isFileExists_def
      c_str_def Let_def)

section \<open>Precedence of the discovery strategies\<close>

text \<open>
  The resolvers in terms of their strategies: the first strategy that finds something
  decides; a strategy that throws ends the resolution.
\<close>

lemma macos_precedence:
  "system \<noteq> [] \<Longrightarrow>
   (let env = fst (macos_findQemuExecutableEnv os system);
        path = fst (macos_findQemuExecutablePath os system);
        common = fst (macos_findQemuExecutableCommon os system);
        resolved = mQemuPath (fst (snd (macos_Impl_findQemuExecutable os system impl)))
    in (\<forall>p. env = Inr p \<and> p \<noteq> [] \<longrightarrow> resolved = p) \<and>
       (\<forall>p. env = Inr [] \<and> path = Inr p \<and> p \<noteq> [] \<longrightarrow> resolved = p) \<and>
       (\<forall>p. env = Inr [] \<and> path = Inr [] \<and> common = Inr p \<longrightarrow> resolved = p))"
  by (simp add: macos_Impl_findQemuExecutable_def Let_def split: prod.splits sum.splits)

lemma win_Impl_precedence:
  "system \<noteq> [] \<Longrightarrow>
   (let env = fst (win_findQemuExecutableEnv os system);
        path = fst (win_findQemuExecutablePath os system);
        reg = fst (win_findQemuExecutableRegistry os system);
        resolved = mQemuPath (fst (snd (win_Impl_findQemuExecutable os system impl)))
    in (\<forall>p. env = Some p \<longrightarrow> resolved = windowsToStdString p) \<and>
       (\<forall>p. env = None \<and> path = Some p \<longrightarrow> resolved = windowsToStdString p) \<and>
       (\<forall>p. env = None \<and> path = None \<and> reg = Some p \<longrightarrow> resolved = windowsToStdString p) \<and>
       (env = None \<and> path = None \<and> reg = None \<longrightarrow> resolved = []))"
  by (simp add: win_Impl_findQemuExecutable_def Let_def split: prod.splits option.splits)

lemma win_precedence:
  "(let env = fst (win_findQemuExecutableEnv os system);
        path = fst (win_findQemuExecutablePath os system);
        reg = fst (win_findQemuExecutableRegistry os system);
        resolved = fst (win_findQemuExecutable os system)
    in (\<forall>p. env = Some p \<longrightarrow> resolved = windowsToStdString p) \<and>
       (\<forall>p. env = None \<and> path = Some p \<longrightarrow> resolved = windowsToStdString p) \<and>
       (\<forall>p. env = None \<and> path = None \<and> reg = Some p \<longrightarrow> resolved = windowsToStdString p) \<and>
       (env = None \<and> path = None \<and> reg = None \<longrightarrow> resolved = []))"
  by (simp add: win_findQemuExecutable_def Let_def split: prod.splits option.splits)

text \<open>
  In terms of files. On macOS an executable file under \<open>QEMU_ROOT\<close> is the result
  whatever \<open>PATH\<close> and the well-known locations hold; on Windows a file under
  \<open>QEMU_ROOT\<close> is, whatever \<open>PATH\<close> and the registry hold (the result is the
  probed path with the NUL that \<open>windowsToStdString\<close> appends).
\<close>

lemma macos_root_file_wins:
  "system \<noteq> [] \<Longrightarrow> getenv os ''QEMU_ROOT'' = Some root \<Longrightarrow>
   fs_exists os (root @ ''/'' @ system) = Inr True \<Longrightarrow>
   access_X_OK os (c_str (root @ ''/'' @ system)) \<Longrightarrow>
     mQemuPath (fst (snd (macos_Impl_findQemuExecutable os system impl))) = root @ ''/'' @ system"
  by (simp add: macos_Impl_findQemuExecutable_def macos_findQemuExecutableEnv_def
      macos_getExePathIfExists_def isFileExists_def Let_def)

lemma takeWhile_before_NUL:
  "takeWhile (\<lambda>c. c \<noteq> x) (xs @ x # ys) = takeWhile (\<lambda>c. c \<noteq> x) (xs :: string)"
  by (induction xs) simp_all

lemma win_findQemuExecutableEnv_found:
  "environment os ''QEMU_ROOT'' = Some root \<Longrightarrow> root \<noteq> [] \<Longrightarrow>
   file_attributes os (take (maxPathLength os)
      (c_str root @ [BACKSLASH] @ stdStringToWindows system @ ''.exe'')) \<Longrightarrow>
     fst (win_findQemuExecutableEnv os system) =
       Some (take (maxPathLength os)
         (c_str root @ [BACKSLASH] @ stdStringToWindows system @ ''.exe''))"
  by (simp add: win_findQemuExecutableEnv_def GetEnvironmentVariableW_def
      win_getExePathIfExists_def win_isFileExists_def c_string_def c_str_def Let_def
      takeWhile_before_NUL)

lemma win_root_file_wins:
  "system \<noteq> [] \<Longrightarrow> environment os ''QEMU_ROOT'' = Some root \<Longrightarrow> root \<noteq> [] \<Longrightarrow>
   file_attributes os (take (maxPathLength os)
      (c_str root @ [BACKSLASH] @ stdStringToWindows system @ ''.exe'')) \<Longrightarrow>
     mQemuPath (fst (snd (win_Impl_findQemuExecutable os system impl))) =
       windowsToStdString (take (maxPathLength os)
         (c_str root @ [BACKSLASH] @ stdStringToWindows system @ ''.exe''))"
proof -
  assume ne: "system \<noteq> []" and root: "environment os ''QEMU_ROOT'' = Some root" "root \<noteq> []"
    and attr: "file_attributes os (take (maxPathLength os)
      (c_str root @ [BACKSLASH] @ stdStringToWindows system @ ''.exe''))"
  obtain env t where et: "win_findQemuExecutableEnv os system = (env, t)"
    by (cases "win_findQemuExecutableEnv os system")
  with win_findQemuExecutableEnv_found [OF root attr]
  have "env = Some (take (maxPathLength os)
      (c_str root @ [BACKSLASH] @ stdStringToWindows system @ ''.exe''))"
    by simp
  with et ne show ?thesis
    by (simp add: win_Impl_findQemuExecutable_def)
qed

lemma win_registry_only:
  "mQemuPath (fst (win_Launcher example_win_os_registry ''qemu-system-arm''))
     = ''C:/qemu'' @ BACKSLASH # ''qemu-system-arm.exe'' @ [NUL]"
  by (simp add: win_Launcher_def win_Impl_findQemuExecutable_def win_findQemuExecutableEnv_def
      win_findQemuExecutablePath_def win_findQemuExecutableRegistry_def GetEnvironmentVariableW_def
      win_getExePathIfExists_def win_isFileExists_def maxPathLength_def MAX_PATH_def c_string_def
      stdStringToWindows_def windowsToStdString_def c_str_def
      example_win_os_registry_def Launcher_init_def Let_def)

text \<open>A probe that throws ends the resolution: the later strategies are not tried.\<close>

lemma linux_resolver_throws:
  "linux_findQemuExecutable example_os_no_permission ''qemu''
     = (Inl filesystem_error, [GetEnv ''QEMU_ROOT'', FsExists ''/root/qemu/qemu.exe''])"
  by (simp add: linux_findQemuExecutable_def linux_findQemuExecutableEnv_def
      linux_getExePathIfExists_def example_os_no_permission_def Let_def)

text \<open>
  Claim C2 has the resolver return the executable of the strategy with the higher
  precedence when several locations hold it, and the one that only the last strategy
  can find rather than the empty result. The macOS and Windows resolvers do
  (\<open>macos_precedence\<close>, \<open>macos_root_file_wins\<close>, \<open>win_Impl_precedence\<close>,
  \<open>win_root_file_wins\<close>). The Linux resolver looks for the system id with
  \<open>.exe\<close> appended in every strategy, so it finds the executable in neither place:
  on the machine of the Linux test \<open>FindQemuExecutable_PrioritizesQemuRootOverPath\<close>,
  with the executable under \<open>QEMU_ROOT\<close> and in the \<open>PATH\<close> directory, it
  returns the empty string where the test expects the copy under \<open>QEMU_ROOT\<close>, and
  on the machine of \<open>FindQemuExecutable_FoundInPath\<close>, where only the last Linux
  strategy can find the executable, it returns the empty string as well. The macOS
  resolver returns the copy under \<open>QEMU_ROOT\<close> on the first machine.
\<close>

theorem linux_resolver_finds_neither_place:
  "linux_findQemuExecutable example_os_two_places ''qemu-system-x86_64'' =
     (Inr '''',
      [GetEnv ''QEMU_ROOT'', FsExists ''/tmp/qemu_test/qemu_root/qemu-system-x86_64.exe'',
       GetEnv ''PATH'', FsExists ''/tmp/qemu_test/path_dir/qemu-system-x86_64.exe'']) \<and>
   linux_findQemuExecutable example_os_path_only ''qemu-system-x86_64'' =
     (Inr '''',
      [GetEnv ''QEMU_ROOT'', GetEnv ''PATH'',
       FsExists ''/tmp/qemu_test/bin/qemu-system-x86_64.exe'']) \<and>
   fst (macos_Launcher example_os_two_places ''qemu-system-x86_64'') =
     Inr (setQemuPath ''/tmp/qemu_test/qemu_root/qemu-system-x86_64'' macos_Impl_init) \<and>
   fst (macos_findQemuExecutablePath example_os_two_places ''qemu-system-x86_64'') =
     Inr ''/tmp/qemu_test/path_dir/qemu-system-x86_64''"
  by (simp add: linux_findQemuExecutable_def linux_findQemuExecutableEnv_def
      linux_findQemuExecutablePath_segments linux_getExePathIfExists_def
      macos_Launcher_def macos_Impl_findQemuExecutable_def macos_findQemuExecutableEnv_def
      macos_findQemuExecutablePath_segments macos_getExePathIfExists_def isFileExists_def
      example_os_two_places_def example_os_path_only_def macos_Impl_init_def setQemuPath_def
      c_str_def Let_def)

section \<open>Configuration: setters and accessors\<close>

lemma addArguments_fields:
  "mArguments (addArguments args l) = mArguments l @ args \<and>
   (addArguments args l)\<lparr>mArguments := mArguments l\<rparr> = l"
  unfolding addArguments_def
  by (induction args arbitrary: l rule: rev_induct) (simp_all add: addArgument_def)

text \<open>
  Claim C10. After \<open>setQemuPath p\<close> the accessor \<open>qemuPath\<close> returns \<open>p\<close>,
  after \<open>setBios b\<close> the accessor \<open>bios\<close> returns \<open>b\<close>, and
  \<open>addArgument a\<close> appends \<open>a\<close> at the end of what \<open>arguments\<close> returns,
  so that a sequence of \<open>addArgument\<close> calls leaves the arguments in insertion order.
  Each setter changes its own member only: putting the old value of that member back
  gives the object before the call, whatever else the object holds.
\<close>

theorem setters_accessors_roundtrip:
  "qemuPath (setQemuPath p l) = p \<and> (setQemuPath p l)\<lparr>mQemuPath := mQemuPath l\<rparr> = l \<and>
   bios (setBios b l) = b \<and> (setBios b l)\<lparr>mBiosFile := mBiosFile l\<rparr> = l \<and>
   arguments (addArgument a l) = arguments l @ [a] \<and>
   (addArgument a l)\<lparr>mArguments := mArguments l\<rparr> = l \<and>
   arguments (addArguments args l) = arguments l @ args \<and>
   (addArguments args l)\<lparr>mArguments := mArguments l\<rparr> = l"
  using addArguments_fields [of args l]
  by (simp add: qemuPath_def bios_def arguments_def setQemuPath_def setBios_def addArgument_def)

theorem setters_accessors_roundtrip_witness:
  "qemuPath example_impl = ''/opt/qemu/bin/qemu-system-arm'' \<and>
   bios example_impl = ''/tmp/bios.bin'' \<and>
   arguments example_impl = [''-m'', ''512''] \<and>
   arguments (addArguments [''-smp'', ''2''] example_impl) = [''-m'', ''512'', ''-smp'', ''2'']"
  using setters_accessors_roundtrip [of "''q''" example_impl "''b''" "''a''" "[''-smp'', ''2'']"]
  by (simp add: example_impl_def macos_Impl_init_def qemuPath_def bios_def arguments_def
      setQemuPath_def setBios_def addArgument_def)


section \<open>Validation in \<open>start()\<close>\<close>

lemma Launcher_start_validates:
  "filesystem_exists (mQemuPath l) = Inr path_found \<Longrightarrow>
   filesystem_exists (mBiosFile l) = Inr bios_found \<Longrightarrow>
   fst (Launcher_start filesystem_exists l) =
     Returned (mQemuPath l \<noteq> [] \<and> path_found \<and> mBiosFile l \<noteq> [] \<and> bios_found) \<and>
   (\<forall>e\<in>set (snd (snd (Launcher_start filesystem_exists l))). \<exists>path. e = FsExists path)"
  by (simp add: Launcher_start_def)

lemma macos_Launcher_start_validates_emptiness:
  "mQemuPath impl = [] \<or> mBiosFile impl = [] \<Longrightarrow>
     macos_Launcher_start sys impl = (Returned False, impl, [])"
  by (auto simp: macos_Launcher_start_def)

lemma win_Launcher_start_rejects_set_path:
  "mQemuPath impl \<noteq> [] \<or> mBiosFile impl \<noteq> [] \<Longrightarrow>
     win_Launcher_start sys impl = (Returned False, impl, [])"
  by (auto simp: win_Launcher_start_def)

text \<open>
  Claim C1 has \<open>start()\<close> return \<open>false\<close> without a spawn when the executable
  path or the auxiliary file is empty or names no existing file, and pass validation
  only when all four conditions hold. The platform-independent \<open>start()\<close> does
  (\<open>Launcher_start_validates\<close>). The Windows \<open>start()\<close> tests the opposite of
  emptiness: with both files set it returns \<open>false\<close> before any system call, and
  with both empty it goes on to \<open>CreateProcessW\<close> with an empty path. The macOS
  \<open>start()\<close> checks emptiness and never asks the file system: with both set it forks
  whether or not the files are there.
\<close>

theorem win_start_validation_inverted:
  "win_Launcher_start example_win_sys example_win_launcher
     = (Returned False, example_win_launcher, []) \<and>
   qemuPath example_win_launcher = ''C:/qemu/qemu-system-x86_64.exe'' \<and>
   bios example_win_launcher = ''C:/qemu/bios.bin'' \<and>
   fst (win_Launcher_start example_win_sys Launcher_init) = Returned True \<and>
   CreateProcess '''' '' -bios ''
     \<in> set (snd (snd (win_Launcher_start example_win_sys Launcher_init))) \<and>
   fst (macos_Launcher_start example_sys_parent example_impl) = Returned True \<and>
   Fork \<in> set (snd (snd (macos_Launcher_start example_sys_parent example_impl)))"
  by (simp add: win_Launcher_start_def win_Impl_start_def win_commandLine_def
      stdStringToWindows_def c_str_def
      example_win_launcher_def example_win_sys_def Launcher_init_def
      macos_Launcher_start_def macos_Impl_start_def example_sys_parent_def example_impl_def
      macos_Impl_init_def setQemuPath_def setBios_def addArgument_def
      qemuPath_def bios_def Let_def)

section \<open>A failed start leaves the configuration alone\<close>

lemma Launcher_start_frame: "fst (snd (Launcher_start ex l)) = l"
  by (simp add: Launcher_start_def split: sum.splits)

lemma macos_Impl_start_frame:
  "mQemuPath (fst (snd (macos_Impl_start sys impl))) = mQemuPath impl \<and>
   mBiosFile (fst (snd (macos_Impl_start sys impl))) = mBiosFile impl \<and>
   mArguments (fst (snd (macos_Impl_start sys impl))) = mArguments impl"
  by (simp add: macos_Impl_start_def Let_def split: option.splits)

lemma macos_Launcher_start_frame:
  "mQemuPath (fst (snd (macos_Launcher_start sys impl))) = mQemuPath impl \<and>
   mBiosFile (fst (snd (macos_Launcher_start sys impl))) = mBiosFile impl \<and>
   mArguments (fst (snd (macos_Launcher_start sys impl))) = mArguments impl"
  using macos_Impl_start_frame [of sys impl]
  by (simp add: macos_Launcher_start_def)

lemma win_Impl_start_frame:
  "mQemuPath (fst (snd (win_Impl_start sys impl))) = mQemuPath impl \<and>
   mBiosFile (fst (snd (win_Impl_start sys impl))) = mBiosFile impl \<and>
   mArguments (fst (snd (win_Impl_start sys impl))) = mArguments impl"
  by (simp add: win_Impl_start_def win_Impl_stop_def Let_def)

lemma win_Launcher_start_frame:
  "mQemuPath (fst (snd (win_Launcher_start sys impl))) = mQemuPath impl \<and>
   mBiosFile (fst (snd (win_Launcher_start sys impl))) = mBiosFile impl \<and>
   mArguments (fst (snd (win_Launcher_start sys impl))) = mArguments impl"
  using win_Impl_start_frame [of sys impl]
  by (simp add: win_Launcher_start_def)

text \<open>
  Claim C9. Whenever \<open>start()\<close> returns \<open>false\<close>, the accessors
  \<open>qemuPath()\<close>, \<open>bios()\<close> and \<open>arguments()\<close> return afterwards what they
  returned before the call: in the platform-independent \<open>Launcher\<close>, on macOS and on
  Windows, whichever check or system call made the start fail.
\<close>

theorem failed_start_keeps_configuration:
  "(Launcher_start ex l = (Returned False, l', t) \<longrightarrow>
      qemuPath l' = qemuPath l \<and> bios l' = bios l \<and> arguments l' = arguments l) \<and>
   (macos_Launcher_start sys impl = (Returned False, impl', t) \<longrightarrow>
      qemuPath impl' = qemuPath impl \<and> bios impl' = bios impl \<and> arguments impl' = arguments impl) \<and>
   (win_Launcher_start wsys w = (Returned False, w', t) \<longrightarrow>
      qemuPath w' = qemuPath w \<and> bios w' = bios w \<and> arguments w' = arguments w)"
proof (intro conjI impI)
  assume a: "Launcher_start ex l = (Returned False, l', t)"
  from Launcher_start_frame [of ex l] a have "l' = l" by simp
  then show "qemuPath l' = qemuPath l" "bios l' = bios l" "arguments l' = arguments l"
    by simp_all
next
  assume a: "macos_Launcher_start sys impl = (Returned False, impl', t)"
  from macos_Launcher_start_frame [of sys impl] a
  show "qemuPath impl' = qemuPath impl" "bios impl' = bios impl" "arguments impl' = arguments impl"
    by (simp_all add: qemuPath_def bios_def arguments_def)
next
  assume a: "win_Launcher_start wsys w = (Returned False, w', t)"
  from win_Launcher_start_frame [of wsys w] a
  show "qemuPath w' = qemuPath w" "bios w' = bios w" "arguments w' = arguments w"
    by (simp_all add: qemuPath_def bios_def arguments_def)
qed

theorem failed_start_keeps_configuration_witness:
  "fst (macos_Launcher_start example_sys_no_fork example_impl) = Returned False \<and>
   qemuPath (fst (snd (macos_Launcher_start example_sys_no_fork example_impl)))
     = ''/opt/qemu/bin/qemu-system-arm'' \<and>
   bios (fst (snd (macos_Launcher_start example_sys_no_fork example_impl))) = ''/tmp/bios.bin'' \<and>
   arguments (fst (snd (macos_Launcher_start example_sys_no_fork example_impl))) = [''-m'', ''512'']"
proof -
  obtain impl' t where
    r: "macos_Launcher_start example_sys_no_fork example_impl = (Returned False, impl', t)"
    by (simp add: macos_Launcher_start_def macos_Impl_start_def example_sys_no_fork_def
        example_impl_def macos_Impl_init_def setQemuPath_def setBios_def addArgument_def)
  from failed_start_keeps_configuration
         [of "\<lambda>p. Inr False" Launcher_init Launcher_init t example_sys_no_fork example_impl impl'
             example_win_sys Launcher_init Launcher_init] r
  have "qemuPath impl' = qemuPath example_impl \<and> bios impl' = bios example_impl \<and>
        arguments impl' = arguments example_impl"
    by blast
  with r show ?thesis
    by (simp add: example_impl_def macos_Impl_init_def qemuPath_def bios_def arguments_def
        setQemuPath_def setBios_def addArgument_def)
qed


section \<open>The child's command line\<close>















section \<open>Destruction\<close>

lemma close_pipes_events: "e \<in> set (snd (close_pipes impl)) \<Longrightarrow> \<exists>fd. e = Close fd"
  by (auto simp: close_pipes_def Let_def split: if_splits prod.splits)

lemma macos_destroy_trace:
  "snd (macos_Launcher_destroy impl) =
     (if 0 < mQemuPid impl
      then [EnterStop, Kill (mQemuPid impl) SIGTERM, WaitPid (mQemuPid impl)]
             @ snd (close_pipes (impl\<lparr>mQemuPid := - 1\<rparr>))
      else [EnterStop, EnterTerminate])"
  by (simp add: macos_Launcher_destroy_def macos_Impl_stop_def macos_Impl_terminate_def
      Let_def split: prod.splits)

lemma macos_destroy_order:
  "(let t = snd (macos_Launcher_destroy impl) in
      t \<noteq> [] \<and> hd t = EnterStop \<and>
      (EnterTerminate \<in> set t \<longleftrightarrow> \<not> fst (macos_Impl_stop impl)))"
proof (cases "0 < mQemuPid impl")
  case True
  have "EnterTerminate \<notin> set (snd (close_pipes (impl\<lparr>mQemuPid := - 1\<rparr>)))"
    using close_pipes_events [of EnterTerminate "impl\<lparr>mQemuPid := - 1\<rparr>"] by auto
  with True show ?thesis
    by (simp add: macos_destroy_trace macos_Impl_stop_def Let_def split: prod.splits)
next
  case False
  then show ?thesis
    by (simp add: macos_destroy_trace macos_Impl_stop_def Let_def)
qed

text \<open>
  Claim C8. Destroying a \<open>Launcher\<close> enters \<open>stop()\<close> first, and enters
  \<open>terminate()\<close> exactly when that \<open>stop()\<close> returned \<open>false\<close>: on macOS,
  on Windows, and in the platform-independent file, whose destructor calls \<open>stop()\<close>
  only and whose \<open>stop()\<close> never returns \<open>false\<close>. This holds in every state
  of the object, a running session (\<open>0 < mQemuPid\<close> on macOS) included.
\<close>

theorem destroy_stops_then_terminates:
  "(let t = snd (macos_Launcher_destroy impl) in
      t \<noteq> [] \<and> hd t = EnterStop \<and>
      (EnterTerminate \<in> set t \<longleftrightarrow> \<not> fst (macos_Impl_stop impl))) \<and>
   (let t = snd (win_Launcher_destroy w) in
      t \<noteq> [] \<and> hd t = EnterStop \<and>
      (EnterTerminate \<in> set t \<longleftrightarrow> \<not> fst (win_Impl_stop w))) \<and>
   (let t = snd (Launcher_destroy l) in
      t \<noteq> [] \<and> hd t = EnterStop \<and>
      (EnterTerminate \<in> set t \<longleftrightarrow> \<not> fst (Launcher_stop l)))"
proof (intro conjI)
  show "let t = snd (macos_Launcher_destroy impl) in
      t \<noteq> [] \<and> hd t = EnterStop \<and>
      (EnterTerminate \<in> set t \<longleftrightarrow> \<not> fst (macos_Impl_stop impl))"
    by (rule macos_destroy_order)
  show "let t = snd (win_Launcher_destroy w) in
      t \<noteq> [] \<and> hd t = EnterStop \<and>
      (EnterTerminate \<in> set t \<longleftrightarrow> \<not> fst (win_Impl_stop w))"
    by (simp add: win_Launcher_destroy_def win_Impl_stop_def)
  show "let t = snd (Launcher_destroy l) in
      t \<noteq> [] \<and> hd t = EnterStop \<and>
      (EnterTerminate \<in> set t \<longleftrightarrow> \<not> fst (Launcher_stop l))"
    by (simp add: Launcher_destroy_def Launcher_stop_def)
qed

text \<open>
  A running macOS session (the parent after a successful \<open>start()\<close>, child pid 4242)
  is stopped with \<open>SIGTERM\<close> and not terminated; a session that never started is
  not stopped, and \<open>terminate()\<close> is entered.
\<close>

theorem destroy_stops_then_terminates_witness:
  "snd (macos_Launcher_destroy (fst (snd (macos_Launcher_start example_sys_parent example_impl))))
     = [EnterStop, Kill 4242 SIGTERM, WaitPid 4242, Close 4, Close 5, Close 7] \<and>
   fst (macos_Impl_stop (fst (snd (macos_Launcher_start example_sys_parent example_impl)))) \<and>
   snd (macos_Launcher_destroy example_impl) = [EnterStop, EnterTerminate] \<and>
   \<not> fst (macos_Impl_stop example_impl)"
  using destroy_stops_then_terminates
          [of "fst (snd (macos_Launcher_start example_sys_parent example_impl))"
              Launcher_init Launcher_init]
        destroy_stops_then_terminates [of example_impl Launcher_init Launcher_init]
  by (simp add: macos_Launcher_destroy_def macos_Impl_stop_def macos_Impl_terminate_def
      close_pipes_def macos_Launcher_start_def macos_Impl_start_def example_sys_parent_def
      example_impl_def macos_Impl_init_def setQemuPath_def setBios_def addArgument_def Let_def)


end
